theory Spec2Isabelle
  imports Complex_Main
begin

section \<open>The landscaping contractor application: store and operations\<close>

text \<open>
  A shallow embedding of \<^verbatim>\<open>src/landscaping_app/app.py\<close>. The SQLite database is a
  record of tables, each table a list of rows in insertion order. Every route handler that
  writes to the database is a function from the store and the form values to the HTTP
  outcome and the store afterwards.

  Conventions of the embedding:
  \<^item> a nullable column is an \<open>option\<close>; an \<^verbatim>\<open>INTEGER\<close> column and a Python
    \<^verbatim>\<open>int\<close> are mathematical integers;
  \<^item> a value of a \<^verbatim>\<open>REAL\<close> column or of a Python \<^verbatim>\<open>float\<close> is a finite double,
    that is, the real number it denotes (infinities and NaN are outside the model).
    Comparing two doubles is comparing these numbers. Adding doubles rounds, so the
    model does no arithmetic of its own on them: SQLite's aggregate \<^verbatim>\<open>SUM\<close> over a
    list of doubles is the argument \<open>sql_sum\<close> of the handler that uses it;
  \<^item> column names are prefixed with the table's initial, since several tables share
    the names \<^verbatim>\<open>id\<close>, \<^verbatim>\<open>job_id\<close>, \<^verbatim>\<open>description\<close>;
  \<^item> the clock reading of a handler (\<^verbatim>\<open>datetime.utcnow()\<close>, already formatted) is the
    argument \<open>now\<close>; \<^verbatim>\<open>datetime.fromisoformat(x).isoformat()\<close> is the argument
    \<open>fromisoformat\<close>, which returns the message of the \<^verbatim>\<open>ValueError\<close> on the left;
  \<^item> foreign keys are not enforced (the connection never switches them on), so a row
    may refer to an identifier that no row has.
\<close>

subsection \<open>Tables\<close>

record client =
  c_id :: int
  c_name :: string
  c_address :: "string option"
  c_phone :: "string option"
  c_email :: "string option"

record crew =
  cr_id :: int
  cr_name :: string

record member =
  m_id :: int
  m_name :: string

record job =
  j_id :: int
  j_client_id :: int
  j_description :: string
  j_scheduled_date :: string
  j_crew :: "string option"
  j_crew_id :: "int option"
  j_estimated_hours :: "real option"
  j_estimated_cost :: "real option"
  j_actual_hours :: "real option"
  j_actual_cost :: "real option"
  j_status :: string
  j_invoice_sent_at :: "string option"
  j_invoice_status :: "string option"
  j_paid_at :: "string option"
  j_on_my_way_sent_at :: "string option"

record task =
  t_id :: int
  t_job_id :: int
  t_description :: string
  t_completed :: int

record quote =
  q_id :: int
  q_client_id :: int
  q_description :: string
  q_estimated_hours :: real
  q_estimated_cost :: real
  q_status :: string
  q_created_at :: "string option"
  q_valid_until :: "string option"
  q_job_id :: "int option"

record payment =
  p_id :: int
  p_job_id :: int
  p_amount :: real
  p_method :: string
  p_paid_at :: string

text \<open>
  The seven \<^verbatim>\<open>AUTOINCREMENT\<close> tables each have their row of \<^verbatim>\<open>sqlite_sequence\<close>
  (the largest identifier the table ever held, 0 before the first insert);
  \<open>job_members\<close> holds pairs (job_id, member_id).
\<close>

record db =
  clients :: "client list"
  clients_seq :: int
  crews :: "crew list"
  crews_seq :: int
  members :: "member list"
  members_seq :: int
  jobs :: "job list"
  jobs_seq :: int
  tasks :: "task list"
  tasks_seq :: int
  quotes :: "quote list"
  quotes_seq :: int
  payments :: "payment list"
  payments_seq :: int
  job_members :: "(int \<times> int) list"

definition empty_db :: db where
  "empty_db = \<lparr>clients = [], clients_seq = 0, crews = [], crews_seq = 0,
     members = [], members_seq = 0, jobs = [], jobs_seq = 0, tasks = [], tasks_seq = 0,
     quotes = [], quotes_seq = 0, payments = [], payments_seq = 0, job_members = []\<rparr>"

text \<open>
  The identifier SQLite gives a new row of an \<^verbatim>\<open>AUTOINCREMENT\<close> table: one more than
  the largest identifier the table holds or ever held.
\<close>

definition autoincrement :: "int \<Rightarrow> int list \<Rightarrow> int" where
  "autoincrement seq ids = max seq (fold max ids 0) + 1"

subsection \<open>Outcomes of a handler\<close>

text \<open>
  A handler returns a \<^verbatim>\<open>RedirectResponse\<close> (its target is a \<open>url\<close>), raises
  \<^verbatim>\<open>HTTPException(status_code, detail)\<close>, or lets a \<^verbatim>\<open>sqlite3.IntegrityError\<close>
  escape (a duplicate key of \<open>job_members\<close>).
\<close>

datatype url =
    To_clients
  | To_client int
  | To_client_has_jobs int
  | To_crews
  | To_crew int
  | To_members
  | To_member int
  | To_quote int
  | To_jobs
  | To_job "int option"
  | To_job_invoice int

datatype error = HTTPException nat string | IntegrityError

type_synonym outcome = "error + url"

subsection \<open>Strings\<close>

text \<open>\<^verbatim>\<open>str.strip()\<close> on ASCII text: whitespace is removed at both ends.\<close>

definition isspace :: "char \<Rightarrow> bool" where
  "isspace c = (let n = (of_char c :: nat) in (9 \<le> n \<and> n \<le> 13) \<or> (28 \<le> n \<and> n \<le> 32))"

definition strip :: "string \<Rightarrow> string" where
  "strip s = rev (dropWhile isspace (rev (dropWhile isspace s)))"

subsection \<open>Lookups\<close>

definition fetch_client :: "db \<Rightarrow> int \<Rightarrow> error + client" where
  "fetch_client s client_id =
     (case find (\<lambda>c. c_id c = client_id) (clients s) of
        None \<Rightarrow> Inl (HTTPException 404 ''Client not found'')
      | Some c \<Rightarrow> Inr c)"

definition fetch_crew :: "db \<Rightarrow> int \<Rightarrow> error + crew" where
  "fetch_crew s crew_id =
     (case find (\<lambda>c. cr_id c = crew_id) (crews s) of
        None \<Rightarrow> Inl (HTTPException 404 ''Crew not found'')
      | Some c \<Rightarrow> Inr c)"

definition fetch_member :: "db \<Rightarrow> int \<Rightarrow> error + member" where
  "fetch_member s member_id =
     (case find (\<lambda>m. m_id m = member_id) (members s) of
        None \<Rightarrow> Inl (HTTPException 404 ''Member not found'')
      | Some m \<Rightarrow> Inr m)"

text \<open>
  \<^verbatim>\<open>fetch_quote\<close> and \<^verbatim>\<open>fetch_job\<close> select from an inner join with \<open>clients\<close>: a
  row whose client is missing is not found. The handlers read only the columns of the
  quote or job itself, so the lookups return that row.
\<close>

definition has_client :: "db \<Rightarrow> int \<Rightarrow> bool" where
  "has_client s client_id = list_ex (\<lambda>c. c_id c = client_id) (clients s)"

definition fetch_quote :: "db \<Rightarrow> int \<Rightarrow> error + quote" where
  "fetch_quote s quote_id =
     (case find (\<lambda>q. q_id q = quote_id \<and> has_client s (q_client_id q)) (quotes s) of
        None \<Rightarrow> Inl (HTTPException 404 ''Quote not found'')
      | Some q \<Rightarrow> Inr q)"

definition fetch_job :: "db \<Rightarrow> int \<Rightarrow> error + job" where
  "fetch_job s job_id =
     (case find (\<lambda>j. j_id j = job_id \<and> has_client s (j_client_id j)) (jobs s) of
        None \<Rightarrow> Inl (HTTPException 404 ''Job not found'')
      | Some j \<Rightarrow> Inr j)"

subsection \<open>Clients, crews and members\<close>

definition create_client :: "db \<Rightarrow> string \<Rightarrow> string \<Rightarrow> string \<Rightarrow> string \<Rightarrow> outcome \<times> db" where
  "create_client s name address phone email =
     (let rid = autoincrement (clients_seq s) (map c_id (clients s)) in
      (Inr To_clients,
       s\<lparr>clients := clients s @
            [\<lparr>c_id = rid, c_name = strip name, c_address = Some (strip address),
              c_phone = Some (strip phone), c_email = Some (strip email)\<rparr>],
         clients_seq := rid\<rparr>))"

definition update_client ::
  "db \<Rightarrow> int \<Rightarrow> string \<Rightarrow> string \<Rightarrow> string \<Rightarrow> string \<Rightarrow> outcome \<times> db" where
  "update_client s client_id name address phone email =
     (case fetch_client s client_id of
        Inl e \<Rightarrow> (Inl e, s)
      | Inr _ \<Rightarrow>
          (Inr (To_client client_id),
           s\<lparr>clients := map (\<lambda>c. if c_id c = client_id
                then c\<lparr>c_name := strip name, c_address := Some (strip address),
                       c_phone := Some (strip phone), c_email := Some (strip email)\<rparr>
                else c) (clients s)\<rparr>))"

definition delete_client :: "db \<Rightarrow> int \<Rightarrow> outcome \<times> db" where
  "delete_client s client_id =
     (case fetch_client s client_id of
        Inl e \<Rightarrow> (Inl e, s)
      | Inr _ \<Rightarrow>
          (let job_count = length (filter (\<lambda>j. j_client_id j = client_id) (jobs s)) in
           if job_count > 0 then (Inr (To_client_has_jobs client_id), s)
           else (Inr To_clients,
                 s\<lparr>clients := filter (\<lambda>c. c_id c \<noteq> client_id) (clients s)\<rparr>)))"

definition create_crew :: "db \<Rightarrow> string \<Rightarrow> outcome \<times> db" where
  "create_crew s name =
     (let rid = autoincrement (crews_seq s) (map cr_id (crews s)) in
      (Inr (To_crew rid),
       s\<lparr>crews := crews s @ [\<lparr>cr_id = rid, cr_name = strip name\<rparr>], crews_seq := rid\<rparr>))"

definition update_crew :: "db \<Rightarrow> int \<Rightarrow> string \<Rightarrow> outcome \<times> db" where
  "update_crew s crew_id name =
     (case fetch_crew s crew_id of
        Inl e \<Rightarrow> (Inl e, s)
      | Inr _ \<Rightarrow>
          (Inr (To_crew crew_id),
           s\<lparr>crews := map (\<lambda>c. if cr_id c = crew_id then c\<lparr>cr_name := strip name\<rparr> else c)
                (crews s)\<rparr>))"

definition delete_crew :: "db \<Rightarrow> int \<Rightarrow> outcome \<times> db" where
  "delete_crew s crew_id =
     (case fetch_crew s crew_id of
        Inl e \<Rightarrow> (Inl e, s)
      | Inr _ \<Rightarrow>
          (Inr To_crews,
           s\<lparr>jobs := map (\<lambda>j. if j_crew_id j = Some crew_id then j\<lparr>j_crew_id := None\<rparr> else j)
                (jobs s),
             crews := filter (\<lambda>c. cr_id c \<noteq> crew_id) (crews s)\<rparr>))"

definition create_member :: "db \<Rightarrow> string \<Rightarrow> outcome \<times> db" where
  "create_member s name =
     (let mid = autoincrement (members_seq s) (map m_id (members s)) in
      (Inr (To_member mid),
       s\<lparr>members := members s @ [\<lparr>m_id = mid, m_name = strip name\<rparr>], members_seq := mid\<rparr>))"

definition update_member :: "db \<Rightarrow> int \<Rightarrow> string \<Rightarrow> outcome \<times> db" where
  "update_member s member_id name =
     (case fetch_member s member_id of
        Inl e \<Rightarrow> (Inl e, s)
      | Inr _ \<Rightarrow>
          (Inr (To_member member_id),
           s\<lparr>members := map (\<lambda>m. if m_id m = member_id then m\<lparr>m_name := strip name\<rparr> else m)
                (members s)\<rparr>))"

definition delete_member :: "db \<Rightarrow> int \<Rightarrow> outcome \<times> db" where
  "delete_member s member_id =
     (case fetch_member s member_id of
        Inl e \<Rightarrow> (Inl e, s)
      | Inr _ \<Rightarrow>
          (Inr To_members,
           s\<lparr>job_members := filter (\<lambda>(jid, mid). mid \<noteq> member_id) (job_members s),
             members := filter (\<lambda>m. m_id m \<noteq> member_id) (members s)\<rparr>))"

subsection \<open>Quotes\<close>

definition create_quote ::
  "db \<Rightarrow> string \<Rightarrow> int \<Rightarrow> string \<Rightarrow> real \<Rightarrow> real \<Rightarrow> string \<Rightarrow> outcome \<times> db" where
  "create_quote s now client_id description estimated_hours estimated_cost valid_until =
     (case fetch_client s client_id of
        Inl e \<Rightarrow> (Inl e, s)
      | Inr _ \<Rightarrow>
          (let created_at = now @ ''Z'';
               valid_until_val = (if strip valid_until = [] then None else Some (strip valid_until));
               qid = autoincrement (quotes_seq s) (map q_id (quotes s)) in
           (Inr (To_quote qid),
            s\<lparr>quotes := quotes s @
                 [\<lparr>q_id = qid, q_client_id = client_id, q_description = strip description,
                   q_estimated_hours = estimated_hours, q_estimated_cost = estimated_cost,
                   q_status = ''Draft'', q_created_at = Some created_at,
                   q_valid_until = valid_until_val, q_job_id = None\<rparr>],
              quotes_seq := qid\<rparr>)))"

text \<open>
  \<^verbatim>\<open>accept_quote\<close> inserts the job, reads back the largest job identifier
  (\<^verbatim>\<open>SELECT id FROM jobs ORDER BY id DESC LIMIT 1\<close>) and writes it into the quote.
  The second component of the redirect is the job the caller is sent to.
\<close>

definition accept_quote :: "db \<Rightarrow> string \<Rightarrow> int \<Rightarrow> outcome \<times> db" where
  "accept_quote s now quote_id =
     (case fetch_quote s quote_id of
        Inl e \<Rightarrow> (Inl e, s)
      | Inr quote \<Rightarrow>
          if q_status quote = ''Accepted'' then (Inr (To_job (q_job_id quote)), s)
          else if q_status quote = ''Declined''
          then (Inl (HTTPException 400 ''Cannot accept a declined quote''), s)
          else
            (let scheduled_date = now;
                 rid = autoincrement (jobs_seq s) (map j_id (jobs s));
                 s1 = s\<lparr>jobs := jobs s @
                        [\<lparr>j_id = rid, j_client_id = q_client_id quote,
                          j_description = q_description quote,
                          j_scheduled_date = scheduled_date, j_crew = Some [],
                          j_crew_id = None,
                          j_estimated_hours = Some (q_estimated_hours quote),
                          j_estimated_cost = Some (q_estimated_cost quote),
                          j_actual_hours = None, j_actual_cost = None,
                          j_status = ''Scheduled'', j_invoice_sent_at = None,
                          j_invoice_status = None, j_paid_at = None,
                          j_on_my_way_sent_at = None\<rparr>],
                      jobs_seq := rid\<rparr>;
                 job_id = Max (set (map j_id (jobs s1)))
             in (Inr (To_job (Some job_id)),
                 s1\<lparr>quotes := map (\<lambda>q. if q_id q = quote_id
                        then q\<lparr>q_status := ''Accepted'', q_job_id := Some job_id\<rparr> else q)
                        (quotes s1)\<rparr>)))"

definition decline_quote :: "db \<Rightarrow> int \<Rightarrow> outcome \<times> db" where
  "decline_quote s quote_id =
     (case fetch_quote s quote_id of
        Inl e \<Rightarrow> (Inl e, s)
      | Inr quote \<Rightarrow>
          if q_status quote \<notin> {''Draft'', ''Sent''}
          then (Inl (HTTPException 400 ''Quote already accepted or declined''), s)
          else (Inr (To_quote quote_id),
                s\<lparr>quotes := map (\<lambda>q. if q_id q = quote_id then q\<lparr>q_status := ''Declined''\<rparr> else q)
                     (quotes s)\<rparr>))"

definition send_quote :: "db \<Rightarrow> int \<Rightarrow> outcome \<times> db" where
  "send_quote s quote_id =
     (case fetch_quote s quote_id of
        Inl e \<Rightarrow> (Inl e, s)
      | Inr quote \<Rightarrow>
          if q_status quote \<noteq> ''Draft''
          then (Inl (HTTPException 400 ''Only draft quotes can be marked as sent''), s)
          else (Inr (To_quote quote_id),
                s\<lparr>quotes := map (\<lambda>q. if q_id q = quote_id then q\<lparr>q_status := ''Sent''\<rparr> else q)
                     (quotes s)\<rparr>))"

subsection \<open>Jobs and tasks\<close>

definition notify_customer :: "db \<Rightarrow> string \<Rightarrow> int \<Rightarrow> outcome \<times> db" where
  "notify_customer s now job_id =
     (case fetch_job s job_id of
        Inl e \<Rightarrow> (Inl e, s)
      | Inr _ \<Rightarrow>
          (let notified_at = now @ ''Z'' in
           (Inr (To_job (Some job_id)),
            s\<lparr>jobs := map (\<lambda>j. if j_id j = job_id
                   then j\<lparr>j_on_my_way_sent_at := Some notified_at\<rparr> else j) (jobs s)\<rparr>)))"

text \<open>
  The loop \<^verbatim>\<open>for mid in member_ids: INSERT INTO job_members ...\<close>. The pair
  (job_id, member_id) is the table's primary key: inserting a pair the table already has
  raises \<^verbatim>\<open>sqlite3.IntegrityError\<close>, here \<open>None\<close>.
\<close>

fun insert_job_members :: "(int \<times> int) list \<Rightarrow> int \<Rightarrow> int list \<Rightarrow> (int \<times> int) list option" where
  "insert_job_members jm job_id [] = Some jm"
| "insert_job_members jm job_id (mid # mids) =
     (if (job_id, mid) \<in> set jm then None
      else insert_job_members (jm @ [(job_id, mid)]) job_id mids)"

text \<open>\<^verbatim>\<open>int(crew_id) if crew_id and str(crew_id).strip() else None\<close>: 0 is falsy.\<close>

definition crew_id_value :: "int option \<Rightarrow> int option" where
  "crew_id_value crew_id =
     (case crew_id of None \<Rightarrow> None | Some c \<Rightarrow> if c = 0 then None else Some c)"

text \<open>
  \<^verbatim>\<open>create_job\<close> commits the job before it inserts the members; an
  \<^verbatim>\<open>IntegrityError\<close> in the loop rolls back the members only.
\<close>

definition create_job ::
  "(string \<Rightarrow> string + string) \<Rightarrow> db \<Rightarrow> int \<Rightarrow> string \<Rightarrow> string \<Rightarrow> string \<Rightarrow> int option \<Rightarrow>
   int list option \<Rightarrow> real \<Rightarrow> real \<Rightarrow> outcome \<times> db" where
  "create_job fromisoformat s client_id description scheduled_date crew crew_id member_ids
     estimated_hours estimated_cost =
     (case fromisoformat scheduled_date of
        Inl err \<Rightarrow> (Inl (HTTPException 400 (''Invalid date: '' @ err)), s)
      | Inr dt \<Rightarrow>
          (let mids = (case member_ids of None \<Rightarrow> [] | Some ms \<Rightarrow> ms);
               cid = crew_id_value crew_id;
               job_id = autoincrement (jobs_seq s) (map j_id (jobs s));
               s1 = s\<lparr>jobs := jobs s @
                      [\<lparr>j_id = job_id, j_client_id = client_id,
                        j_description = strip description, j_scheduled_date = dt,
                        j_crew = Some (strip crew), j_crew_id = cid,
                        j_estimated_hours = Some estimated_hours,
                        j_estimated_cost = Some estimated_cost,
                        j_actual_hours = None, j_actual_cost = None,
                        j_status = ''Scheduled'', j_invoice_sent_at = None,
                        j_invoice_status = None, j_paid_at = None,
                        j_on_my_way_sent_at = None\<rparr>],
                    jobs_seq := job_id\<rparr>
           in case insert_job_members (job_members s1) job_id mids of
                None \<Rightarrow> (Inl IntegrityError, s1)
              | Some jm \<Rightarrow> (Inr To_jobs, s1\<lparr>job_members := jm\<rparr>)))"

text \<open>
  \<^verbatim>\<open>update_job\<close> writes the job, deletes its members and inserts the new ones in one
  transaction: an \<^verbatim>\<open>IntegrityError\<close> in the loop rolls everything back.
\<close>

definition update_job ::
  "(string \<Rightarrow> string + string) \<Rightarrow> db \<Rightarrow> int \<Rightarrow> int \<Rightarrow> string \<Rightarrow> string \<Rightarrow> string \<Rightarrow> int option \<Rightarrow>
   int list option \<Rightarrow> real \<Rightarrow> real \<Rightarrow> outcome \<times> db" where
  "update_job fromisoformat s job_id client_id description scheduled_date crew crew_id
     member_ids estimated_hours estimated_cost =
     (case fetch_job s job_id of
        Inl e \<Rightarrow> (Inl e, s)
      | Inr job \<Rightarrow>
          if j_status job = ''Completed''
          then (Inl (HTTPException 400 ''Cannot edit a completed job''), s)
          else
            (case fromisoformat scheduled_date of
               Inl err \<Rightarrow> (Inl (HTTPException 400 (''Invalid date: '' @ err)), s)
             | Inr dt \<Rightarrow>
                 (let mids = (case member_ids of None \<Rightarrow> [] | Some ms \<Rightarrow> ms);
                      cid = crew_id_value crew_id;
                      s1 = s\<lparr>jobs := map (\<lambda>j. if j_id j = job_id
                             then j\<lparr>j_client_id := client_id,
                                    j_description := strip description,
                                    j_scheduled_date := dt, j_crew := Some (strip crew),
                                    j_crew_id := cid,
                                    j_estimated_hours := Some estimated_hours,
                                    j_estimated_cost := Some estimated_cost\<rparr>
                             else j) (jobs s)\<rparr>;
                      kept = filter (\<lambda>(jid, mid). jid \<noteq> job_id) (job_members s1)
                  in case insert_job_members kept job_id mids of
                       None \<Rightarrow> (Inl IntegrityError, s)
                     | Some jm \<Rightarrow> (Inr (To_job (Some job_id)), s1\<lparr>job_members := jm\<rparr>))))"

definition add_task :: "db \<Rightarrow> int \<Rightarrow> string \<Rightarrow> outcome \<times> db" where
  "add_task s job_id description =
     (let tid = autoincrement (tasks_seq s) (map t_id (tasks s)) in
      (Inr (To_job (Some job_id)),
       s\<lparr>tasks := tasks s @
            [\<lparr>t_id = tid, t_job_id = job_id, t_description = strip description,
              t_completed = 0\<rparr>],
         tasks_seq := tid\<rparr>))"

definition toggle_task :: "db \<Rightarrow> int \<Rightarrow> outcome \<times> db" where
  "toggle_task s task_id =
     (case find (\<lambda>t. t_id t = task_id) (tasks s) of
        None \<Rightarrow> (Inl (HTTPException 404 ''Task not found''), s)
      | Some task \<Rightarrow>
          (let new_completed = (if t_completed task \<noteq> 0 then 0 else 1) in
           (Inr (To_job (Some (t_job_id task))),
            s\<lparr>tasks := map (\<lambda>t. if t_id t = task_id then t\<lparr>t_completed := new_completed\<rparr>
                   else t) (tasks s)\<rparr>)))"

definition allowed_statuses :: "string set" where
  "allowed_statuses = {''Scheduled'', ''In progress'', ''Completed''}"

definition update_job_status :: "db \<Rightarrow> int \<Rightarrow> string \<Rightarrow> outcome \<times> db" where
  "update_job_status s job_id status =
     (if status \<notin> allowed_statuses then (Inl (HTTPException 400 ''Invalid status''), s)
      else (Inr (To_job (Some job_id)),
            s\<lparr>jobs := map (\<lambda>j. if j_id j = job_id then j\<lparr>j_status := status\<rparr> else j)
                 (jobs s)\<rparr>))"

definition complete_job :: "db \<Rightarrow> int \<Rightarrow> real \<Rightarrow> real \<Rightarrow> string \<Rightarrow> outcome \<times> db" where
  "complete_job s job_id actual_hours actual_cost status =
     (Inr (To_job (Some job_id)),
      s\<lparr>jobs := map (\<lambda>j. if j_id j = job_id
             then j\<lparr>j_status := status, j_actual_hours := Some actual_hours,
                    j_actual_cost := Some actual_cost\<rparr>
             else j) (jobs s)\<rparr>)"

subsection \<open>Invoices and payments\<close>

definition mark_invoice_sent :: "db \<Rightarrow> string \<Rightarrow> int \<Rightarrow> outcome \<times> db" where
  "mark_invoice_sent s now job_id =
     (case fetch_job s job_id of
        Inl e \<Rightarrow> (Inl e, s)
      | Inr job \<Rightarrow>
          if j_status job \<noteq> ''Completed''
          then (Inl (HTTPException 400 ''Job must be completed first''), s)
          else
            (let sent_at = now @ ''Z'' in
             (Inr (To_job_invoice job_id),
              s\<lparr>jobs := map (\<lambda>j. if j_id j = job_id
                     then j\<lparr>j_invoice_sent_at := Some sent_at, j_invoice_status := Some ''Sent''\<rparr>
                     else j) (jobs s)\<rparr>)))"

definition allowed_methods :: "string set" where
  "allowed_methods = {''Cash'', ''Check'', ''Card'', ''Other''}"

text \<open>
  \<^verbatim>\<open>SELECT COALESCE(SUM(amount), 0) FROM payments WHERE job_id = ?\<close>: the amounts of
  the job's payments in the order of the table, summed by SQLite; \<^verbatim>\<open>SUM\<close> of no row is
  \<^verbatim>\<open>NULL\<close>, which \<^verbatim>\<open>COALESCE\<close> turns into 0.
\<close>

definition total_paid :: "(real list \<Rightarrow> real) \<Rightarrow> payment list \<Rightarrow> int \<Rightarrow> real" where
  "total_paid sql_sum ps job_id =
     (let amounts = map p_amount (filter (\<lambda>p. p_job_id p = job_id) ps)
      in if amounts = [] then 0 else sql_sum amounts)"

definition add_payment ::
  "(real list \<Rightarrow> real) \<Rightarrow> db \<Rightarrow> string \<Rightarrow> int \<Rightarrow> real \<Rightarrow> string \<Rightarrow> outcome \<times> db" where
  "add_payment sql_sum s now job_id amount method =
     (case fetch_job s job_id of
        Inl e \<Rightarrow> (Inl e, s)
      | Inr job \<Rightarrow>
          if j_status job \<noteq> ''Completed''
          then (Inl (HTTPException 400 ''Job must be completed first''), s)
          else if method \<notin> allowed_methods
          then (Inl (HTTPException 400 ''Invalid payment method''), s)
          else
            (let paid_at = now @ ''Z'';
                 pid = autoincrement (payments_seq s) (map p_id (payments s));
                 s1 = s\<lparr>payments := payments s @
                        [\<lparr>p_id = pid, p_job_id = job_id, p_amount = amount,
                          p_method = method, p_paid_at = paid_at\<rparr>],
                      payments_seq := pid\<rparr>;
                 total = total_paid sql_sum (payments s1) job_id;
                 actual_cost = (case j_actual_cost job of None \<Rightarrow> 0 | Some c \<Rightarrow> c)
             in if total \<ge> actual_cost
                then (Inr (To_job_invoice job_id),
                      s1\<lparr>jobs := map (\<lambda>j. if j_id j = job_id
                             then j\<lparr>j_invoice_status := Some ''Paid'', j_paid_at := Some paid_at\<rparr>
                             else j) (jobs s1)\<rparr>)
                else (Inr (To_job_invoice job_id), s1)))"

subsection \<open>Requests and reachable stores\<close>

text \<open>
  One constructor for each route that writes to the database, with the values the handler
  receives (the clock reading first where the handler reads the clock). \<open>fi\<close> is
  \<open>fromisoformat\<close> and \<open>sm\<close> is \<open>sql_sum\<close>.
\<close>

datatype request =
    Create_client string string string string
  | Update_client int string string string string
  | Delete_client int
  | Create_crew string
  | Update_crew int string
  | Delete_crew int
  | Create_member string
  | Update_member int string
  | Delete_member int
  | Create_quote string int string real real string
  | Accept_quote string int
  | Decline_quote int
  | Send_quote int
  | Notify_customer string int
  | Create_job int string string string "int option" "int list option" real real
  | Update_job int int string string string "int option" "int list option" real real
  | Add_task int string
  | Toggle_task int
  | Update_job_status int string
  | Complete_job int real real string
  | Mark_invoice_sent string int
  | Add_payment string int real string

fun handle ::
  "(string \<Rightarrow> string + string) \<Rightarrow> (real list \<Rightarrow> real) \<Rightarrow> db \<Rightarrow> request \<Rightarrow> outcome \<times> db" where
  "handle fi sm s (Create_client name address phone email) = create_client s name address phone email"
| "handle fi sm s (Update_client cid name address phone email) =
     update_client s cid name address phone email"
| "handle fi sm s (Delete_client cid) = delete_client s cid"
| "handle fi sm s (Create_crew name) = create_crew s name"
| "handle fi sm s (Update_crew cid name) = update_crew s cid name"
| "handle fi sm s (Delete_crew cid) = delete_crew s cid"
| "handle fi sm s (Create_member name) = create_member s name"
| "handle fi sm s (Update_member mid name) = update_member s mid name"
| "handle fi sm s (Delete_member mid) = delete_member s mid"
| "handle fi sm s (Create_quote now cid d eh ec vu) = create_quote s now cid d eh ec vu"
| "handle fi sm s (Accept_quote now qid) = accept_quote s now qid"
| "handle fi sm s (Decline_quote qid) = decline_quote s qid"
| "handle fi sm s (Send_quote qid) = send_quote s qid"
| "handle fi sm s (Notify_customer now jid) = notify_customer s now jid"
| "handle fi sm s (Create_job cid d sd cr crid mids eh ec) = create_job fi s cid d sd cr crid mids eh ec"
| "handle fi sm s (Update_job jid cid d sd cr crid mids eh ec) =
     update_job fi s jid cid d sd cr crid mids eh ec"
| "handle fi sm s (Add_task jid d) = add_task s jid d"
| "handle fi sm s (Toggle_task tid) = toggle_task s tid"
| "handle fi sm s (Update_job_status jid status) = update_job_status s jid status"
| "handle fi sm s (Complete_job jid ah ac status) = complete_job s jid ah ac status"
| "handle fi sm s (Mark_invoice_sent now jid) = mark_invoice_sent s now jid"
| "handle fi sm s (Add_payment now jid amount method) = add_payment sm s now jid amount method"

text \<open>The store after a sequence of requests, whatever their outcomes.\<close>

fun run ::
  "(string \<Rightarrow> string + string) \<Rightarrow> (real list \<Rightarrow> real) \<Rightarrow> db \<Rightarrow> request list \<Rightarrow> db" where
  "run fi sm s [] = s"
| "run fi sm s (r # rs) = run fi sm (snd (handle fi sm s r)) rs"

text \<open>
  The job \<open>job_id\<close> is paid: the table has a row with this identifier, and every row
  with this identifier has \<^verbatim>\<open>invoice_status = 'Paid'\<close>.
\<close>

definition is_paid :: "db \<Rightarrow> int \<Rightarrow> bool" where
  "is_paid s job_id =
     (list_ex (\<lambda>j. j_id j = job_id) (jobs s) \<and>
      list_all (\<lambda>j. j_id j = job_id \<longrightarrow> j_invoice_status j = Some ''Paid'') (jobs s))"

fun marks_sent :: "request \<Rightarrow> int \<Rightarrow> bool" where
  "marks_sent (Mark_invoice_sent now jid) job_id = (jid = job_id)"
| "marks_sent _ job_id = False"

fun completes :: "request \<Rightarrow> int \<Rightarrow> bool" where
  "completes (Complete_job jid ah ac status) job_id = (jid = job_id)"
| "completes _ job_id = False"

subsection \<open>What a request may do to the jobs table\<close>

text \<open>
  \<open>row_kept r j j'\<close>: the row \<open>j'\<close> is the row \<open>j\<close> after the request \<open>r\<close>, with the
  same identifier; its invoice status is the old one or Paid unless \<open>r\<close> marks the
  invoice of this job as sent, and its actual hours and cost are the old ones unless \<open>r\<close>
  completes this job. \<open>row_new js e\<close>: the row \<open>e\<close> is inserted into the table \<open>js\<close>
  under a new identifier with null actual hours and cost. \<open>jobs_step r js js'\<close>: the
  table \<open>js'\<close> consists of the rows of \<open>js\<close>, kept in this sense, followed by new rows.
\<close>

definition row_kept :: "request \<Rightarrow> job \<Rightarrow> job \<Rightarrow> bool" where
  "row_kept r j j' =
     (j_id j' = j_id j \<and>
      (j_invoice_status j' = j_invoice_status j \<or> j_invoice_status j' = Some ''Paid'' \<or>
       marks_sent r (j_id j)) \<and>
      (completes r (j_id j) \<or>
       (j_actual_hours j' = j_actual_hours j \<and> j_actual_cost j' = j_actual_cost j)))"

definition row_new :: "job list \<Rightarrow> job \<Rightarrow> bool" where
  "row_new js e = (j_id e \<notin> set (map j_id js) \<and> j_actual_hours e = None \<and> j_actual_cost e = None)"

definition jobs_step :: "request \<Rightarrow> job list \<Rightarrow> job list \<Rightarrow> bool" where
  "jobs_step r js js' =
     (\<exists>g extra. js' = map g js @ extra \<and> (\<forall>j. row_kept r j (g j)) \<and>
        (\<forall>e \<in> set extra. row_new js e))"

subsection \<open>Sample stores\<close>

text \<open>One client, and at most one job, one quote and some payments of that client.\<close>

definition demo_client :: client where
  "demo_client = \<lparr>c_id = 1, c_name = ''Ann'', c_address = Some [], c_phone = Some [],
     c_email = Some []\<rparr>"

definition demo_job :: "string \<Rightarrow> real option \<Rightarrow> string option \<Rightarrow> job" where
  "demo_job status actual_cost invoice_status =
     \<lparr>j_id = 1, j_client_id = 1, j_description = ''Mow'',
      j_scheduled_date = ''2024-05-01T09:00:00'', j_crew = Some [], j_crew_id = None,
      j_estimated_hours = Some 2, j_estimated_cost = Some 100,
      j_actual_hours = map_option (\<lambda>_. 2) actual_cost, j_actual_cost = actual_cost,
      j_status = status, j_invoice_sent_at = None, j_invoice_status = invoice_status,
      j_paid_at = None, j_on_my_way_sent_at = None\<rparr>"

definition demo_quote :: "string \<Rightarrow> int option \<Rightarrow> quote" where
  "demo_quote status job_id =
     \<lparr>q_id = 1, q_client_id = 1, q_description = ''Mow'', q_estimated_hours = 2,
      q_estimated_cost = 100, q_status = status, q_created_at = Some ''2024-04-30T08:00:00Z'',
      q_valid_until = None, q_job_id = job_id\<rparr>"

definition demo_payment :: "int \<Rightarrow> real \<Rightarrow> string \<Rightarrow> payment" where
  "demo_payment pid amount method =
     \<lparr>p_id = pid, p_job_id = 1, p_amount = amount, p_method = method,
      p_paid_at = ''2024-05-02T10:00:00Z''\<rparr>"

definition demo_db :: "job list \<Rightarrow> quote list \<Rightarrow> payment list \<Rightarrow> db" where
  "demo_db js qs ps =
     \<lparr>clients = [demo_client], clients_seq = 1, crews = [], crews_seq = 0,
      members = [], members_seq = 0, jobs = js, jobs_seq = int (length js),
      tasks = [], tasks_seq = 0, quotes = qs, quotes_seq = int (length qs),
      payments = ps, payments_seq = int (length ps), job_members = []\<rparr>"

section \<open>Properties\<close>

subsection \<open>Rows and lookups\<close>

lemma find_map_rows:
  "(\<And>x. P (f x) = P x) \<Longrightarrow> find P (map f xs) = map_option f (find P xs)"
  by (induction xs) simp_all

lemma find_holds: "find P xs = Some x \<Longrightarrow> P x \<and> x \<in> set xs"
  by (induction xs) (auto split: if_splits)

lemma in_updated_rows:
  "y \<in> set (map (\<lambda>x. if P x then f x else x) xs) \<Longrightarrow>
   (\<exists>x \<in> set xs. P x \<and> y = f x) \<or> (y \<in> set xs \<and> \<not> P y)"
  by (induction xs) (auto split: if_splits)

text \<open>
  Reading a job after an \<^verbatim>\<open>UPDATE jobs SET ... WHERE id = ?\<close> that leaves \<open>id\<close> and
  \<open>client_id\<close> alone gives the job read before, updated.
\<close>

lemma fetch_job_update:
  assumes "clients s' = clients s"
    and "jobs s' = map (\<lambda>j. if j_id j = job_id then f j else j) (jobs s)"
    and "\<And>j. j_id (f j) = j_id j" and "\<And>j. j_client_id (f j) = j_client_id j"
  shows "fetch_job s' job_id = map_sum id f (fetch_job s job_id)"
proof -
  let ?g = "\<lambda>j. if j_id j = job_id then f j else j"
  let ?P = "\<lambda>s j. j_id j = job_id \<and> has_client s (j_client_id j)"
  have same: "?P s' = ?P s" using assms(1) by (simp add: has_client_def)
  have "find (?P s) (map ?g (jobs s)) = map_option ?g (find (?P s) (jobs s))"
    by (rule find_map_rows) (simp add: assms(3,4))
  moreover have "map_option ?g (find (?P s) (jobs s)) = map_option f (find (?P s) (jobs s))"
  proof (cases "find (?P s) (jobs s)")
    case None
    then show ?thesis by simp
  next
    case (Some x)
    from find_holds [OF Some] have "j_id x = job_id" by simp
    with Some show ?thesis by simp
  qed
  ultimately show ?thesis
    unfolding fetch_job_def same assms(2) by (simp split: option.splits)
qed

lemma fetch_job_row: "fetch_job s job_id = Inr j \<Longrightarrow> j \<in> set (jobs s) \<and> j_id j = job_id"
proof -
  assume "fetch_job s job_id = Inr j"
  then have "find (\<lambda>j. j_id j = job_id \<and> has_client s (j_client_id j)) (jobs s) = Some j"
    by (simp add: fetch_job_def split: option.splits)
  from find_holds [OF this] show ?thesis by simp
qed

lemma demo_fetch_job: "fetch_job (demo_db [demo_job st ac ist] qs ps) 1 = Inr (demo_job st ac ist)"
  by (simp add: fetch_job_def demo_db_def demo_job_def demo_client_def has_client_def)

lemma demo_fetch_quote: "fetch_quote (demo_db js [demo_quote st jr] ps) 1 = Inr (demo_quote st jr)"
  by (simp add: fetch_quote_def demo_db_def demo_quote_def demo_client_def has_client_def)

subsection \<open>Completing a job\<close>

text \<open>
  Claim C10. \<^verbatim>\<open>complete_job\<close> does not validate its status argument: for every
  string \<open>st\<close>, also one outside Scheduled, In progress, Completed, the call returns its
  redirect (no error), keeps the rows of the jobs table in place, and every row of the job
  then has status \<open>st\<close>, actual hours \<open>h\<close> and actual cost \<open>c\<close>; a job that
  \<^verbatim>\<open>fetch_job\<close> found before is read back afterwards with exactly these three columns
  written.
\<close>

theorem complete_job_any_status:
  "fst (complete_job s job_id h c st) = Inr (To_job (Some job_id)) \<and>
   map j_id (jobs (snd (complete_job s job_id h c st))) = map j_id (jobs s) \<and>
   (\<forall>j' \<in> set (jobs (snd (complete_job s job_id h c st))). j_id j' = job_id \<longrightarrow>
      j_status j' = st \<and> j_actual_hours j' = Some h \<and> j_actual_cost j' = Some c) \<and>
   (\<forall>j. fetch_job s job_id = Inr j \<longrightarrow>
      fetch_job (snd (complete_job s job_id h c st)) job_id =
        Inr (j\<lparr>j_status := st, j_actual_hours := Some h, j_actual_cost := Some c\<rparr>))"
proof (intro conjI)
  let ?f = "\<lambda>j. j\<lparr>j_status := st, j_actual_hours := Some h, j_actual_cost := Some c\<rparr>"
  show "fst (complete_job s job_id h c st) = Inr (To_job (Some job_id))"
    by (simp add: complete_job_def)
  show "map j_id (jobs (snd (complete_job s job_id h c st))) = map j_id (jobs s)"
    by (simp add: complete_job_def)
  show "\<forall>j' \<in> set (jobs (snd (complete_job s job_id h c st))). j_id j' = job_id \<longrightarrow>
      j_status j' = st \<and> j_actual_hours j' = Some h \<and> j_actual_cost j' = Some c"
  proof (intro ballI impI)
    fix j'
    assume m: "j' \<in> set (jobs (snd (complete_job s job_id h c st)))" and i: "j_id j' = job_id"
    from m have "j' \<in> set (map (\<lambda>j. if j_id j = job_id then ?f j else j) (jobs s))"
      by (simp add: complete_job_def)
    from in_updated_rows [OF this] i obtain x where "j' = ?f x"
      by blast
    then show "j_status j' = st \<and> j_actual_hours j' = Some h \<and> j_actual_cost j' = Some c"
      by simp
  qed
  have "fetch_job (snd (complete_job s job_id h c st)) job_id = map_sum id ?f (fetch_job s job_id)"
    by (rule fetch_job_update) (simp_all add: complete_job_def)
  then show "\<forall>j. fetch_job s job_id = Inr j \<longrightarrow>
      fetch_job (snd (complete_job s job_id h c st)) job_id = Inr (?f j)"
    by simp
qed

theorem complete_job_any_status_witness:
  "fetch_job (demo_db [demo_job ''Scheduled'' None None] [] []) 1 =
     Inr (demo_job ''Scheduled'' None None) \<and>
   fst (complete_job (demo_db [demo_job ''Scheduled'' None None] [] []) 1 3 150 ''Bogus'') =
     Inr (To_job (Some 1)) \<and>
   fetch_job (snd (complete_job (demo_db [demo_job ''Scheduled'' None None] [] []) 1 3 150
       ''Bogus'')) 1 =
     Inr (demo_job ''Scheduled'' None None
           \<lparr>j_status := ''Bogus'', j_actual_hours := Some 3, j_actual_cost := Some 150\<rparr>)"
  using complete_job_any_status
    [of "demo_db [demo_job ''Scheduled'' None None] [] []" 1 3 150 "''Bogus''"]
  by (simp add: demo_fetch_job)

subsection \<open>Deleting a client\<close>

text \<open>
  Claim C8. Deleting an existing client that at least one job refers to is refused (the handler
  redirects to the client's page with \<^verbatim>\<open>?error=has_jobs\<close>, the conflict error of the
  specification) and the store is unchanged; deleting a client that no job refers to
  removes the rows of \<open>clients\<close> with that identifier and changes nothing else.
\<close>

theorem delete_client_guard:
  assumes "fetch_client s client_id = Inr c"
  shows "(list_ex (\<lambda>j. j_client_id j = client_id) (jobs s) \<longrightarrow>
            delete_client s client_id = (Inr (To_client_has_jobs client_id), s)) \<and>
         (\<not> list_ex (\<lambda>j. j_client_id j = client_id) (jobs s) \<longrightarrow>
            delete_client s client_id =
              (Inr To_clients, s\<lparr>clients := filter (\<lambda>c. c_id c \<noteq> client_id) (clients s)\<rparr>))"
proof -
  have "(filter (\<lambda>j. j_client_id j = client_id) (jobs s) = []) =
        (\<not> list_ex (\<lambda>j. j_client_id j = client_id) (jobs s))"
    by (simp add: filter_empty_conv list_ex_iff)
  with assms show ?thesis by (simp add: delete_client_def)
qed

theorem delete_client_guard_witness:
  "fetch_client (demo_db [demo_job ''Scheduled'' None None] [] []) 1 = Inr demo_client \<and>
   delete_client (demo_db [demo_job ''Scheduled'' None None] [] []) 1 =
     (Inr (To_client_has_jobs 1), demo_db [demo_job ''Scheduled'' None None] [] []) \<and>
   fetch_client (demo_db [] [] []) 1 = Inr demo_client \<and>
   delete_client (demo_db [] [] []) 1 = (Inr To_clients, (demo_db [] [] [])\<lparr>clients := []\<rparr>)"
proof -
  have a: "fetch_client (demo_db [demo_job ''Scheduled'' None None] [] []) 1 = Inr demo_client"
    by (simp add: fetch_client_def demo_db_def demo_client_def)
  have b: "fetch_client (demo_db [] [] []) 1 = Inr demo_client"
    by (simp add: fetch_client_def demo_db_def demo_client_def)
  have c: "list_ex (\<lambda>j. j_client_id j = 1) (jobs (demo_db [demo_job ''Scheduled'' None None] [] []))"
    by (simp add: demo_db_def demo_job_def)
  have d: "\<not> list_ex (\<lambda>j. j_client_id j = 1) (jobs (demo_db [] [] []))"
    by (simp add: demo_db_def)
  have e: "filter (\<lambda>c. c_id c \<noteq> 1) (clients (demo_db [] [] [])) = []"
    by (simp add: demo_db_def demo_client_def)
  from delete_client_guard [OF a] delete_client_guard [OF b] a b c d e show ?thesis
    by simp
qed

subsection \<open>Accepting a quote again\<close>

text \<open>
  Claim C2. For a quote whose status is Accepted (a quote that \<^verbatim>\<open>fetch_quote\<close> finds,
  that is, a row of \<open>quotes\<close> whose client exists), \<^verbatim>\<open>accept_quote\<close> returns the
  redirect to the job stored in the quote's \<open>job_id\<close> and leaves the store as it is: no
  second job is created, and the quote keeps its status and its \<open>job_id\<close>.
\<close>

theorem accept_quote_idempotent:
  assumes "fetch_quote s quote_id = Inr q" and "q_status q = ''Accepted''"
  shows "accept_quote s now quote_id = (Inr (To_job (q_job_id q)), s)"
  using assms by (simp add: accept_quote_def)

theorem accept_quote_idempotent_witness:
  "fetch_quote (demo_db [demo_job ''Scheduled'' None None] [demo_quote ''Accepted'' (Some 1)] [])
     1 = Inr (demo_quote ''Accepted'' (Some 1)) \<and>
   q_status (demo_quote ''Accepted'' (Some 1)) = ''Accepted'' \<and>
   accept_quote (demo_db [demo_job ''Scheduled'' None None] [demo_quote ''Accepted'' (Some 1)] [])
     ''2024-05-03T12:00:00'' 1 =
     (Inr (To_job (Some 1)),
      demo_db [demo_job ''Scheduled'' None None] [demo_quote ''Accepted'' (Some 1)] [])"
proof -
  have s: "q_status (demo_quote ''Accepted'' (Some 1)) = ''Accepted''"
    and j: "q_job_id (demo_quote ''Accepted'' (Some 1)) = Some 1"
    by (simp_all add: demo_quote_def)
  from accept_quote_idempotent [OF demo_fetch_quote s] demo_fetch_quote s j show ?thesis
    by simp
qed

subsection \<open>Invoice operations before completion\<close>

text \<open>
  Claim C6. For a job that \<^verbatim>\<open>fetch_job\<close> finds and whose status is not Completed,
  \<^verbatim>\<open>add_payment\<close> and
  \<^verbatim>\<open>mark_invoice_sent\<close> raise the HTTP 400 error "Job must be completed first" (the
  failed precondition of the specification) and leave the store unchanged. For a
  Completed job, \<^verbatim>\<open>add_payment\<close> with a method outside Cash, Check, Card, Other raises
  the HTTP 400 error "Invalid payment method" (the validation error) and leaves the store
  unchanged. Whenever no row of the job is Completed, or the method is not allowed, the
  handler fails and the store, so also the payments table and the job's invoice columns,
  is the one before the call.
\<close>

theorem invoice_requires_completed:
  "(fetch_job s job_id = Inr j \<and> j_status j \<noteq> ''Completed'' \<longrightarrow>
      add_payment sm s now job_id amount method =
        (Inl (HTTPException 400 ''Job must be completed first''), s) \<and>
      mark_invoice_sent s now job_id =
        (Inl (HTTPException 400 ''Job must be completed first''), s)) \<and>
   (fetch_job s job_id = Inr j \<and> j_status j = ''Completed'' \<and> method \<notin> allowed_methods \<longrightarrow>
      add_payment sm s now job_id amount method =
        (Inl (HTTPException 400 ''Invalid payment method''), s)) \<and>
   ((\<forall>j \<in> set (jobs s). j_id j = job_id \<longrightarrow> j_status j \<noteq> ''Completed'') \<or>
      method \<notin> allowed_methods \<longrightarrow>
      isl (fst (add_payment sm s now job_id amount method)) \<and>
      snd (add_payment sm s now job_id amount method) = s) \<and>
   ((\<forall>j \<in> set (jobs s). j_id j = job_id \<longrightarrow> j_status j \<noteq> ''Completed'') \<longrightarrow>
      isl (fst (mark_invoice_sent s now job_id)) \<and> snd (mark_invoice_sent s now job_id) = s)"
proof -
  have a: "add_payment sm s now job_id amount method =
        (Inl (HTTPException 400 ''Job must be completed first''), s) \<and>
      mark_invoice_sent s now job_id =
        (Inl (HTTPException 400 ''Job must be completed first''), s)"
    if "fetch_job s job_id = Inr j \<and> j_status j \<noteq> ''Completed''"
    using that by (simp add: add_payment_def mark_invoice_sent_def)
  have b: "add_payment sm s now job_id amount method =
        (Inl (HTTPException 400 ''Invalid payment method''), s)"
    if "fetch_job s job_id = Inr j \<and> j_status j = ''Completed'' \<and> method \<notin> allowed_methods"
    using that by (simp add: add_payment_def)
  have c: "isl (fst (add_payment sm s now job_id amount method)) \<and>
      snd (add_payment sm s now job_id amount method) = s"
    if h: "(\<forall>j \<in> set (jobs s). j_id j = job_id \<longrightarrow> j_status j \<noteq> ''Completed'') \<or>
      method \<notin> allowed_methods"
  proof (cases "fetch_job s job_id")
    case (Inl e)
    then show ?thesis by (simp add: add_payment_def)
  next
    case (Inr k)
    from fetch_job_row [OF Inr] h have "j_status k \<noteq> ''Completed'' \<or> method \<notin> allowed_methods"
      by blast
    with Inr show ?thesis by (auto simp: add_payment_def)
  qed
  have d: "isl (fst (mark_invoice_sent s now job_id)) \<and> snd (mark_invoice_sent s now job_id) = s"
    if h: "\<forall>j \<in> set (jobs s). j_id j = job_id \<longrightarrow> j_status j \<noteq> ''Completed''"
  proof (cases "fetch_job s job_id")
    case (Inl e)
    then show ?thesis by (simp add: mark_invoice_sent_def)
  next
    case (Inr k)
    from fetch_job_row [OF Inr] h have "j_status k \<noteq> ''Completed''"
      by blast
    with Inr show ?thesis by (simp add: mark_invoice_sent_def)
  qed
  show ?thesis
  proof (intro conjI impI)
    assume h: "fetch_job s job_id = Inr j \<and> j_status j \<noteq> ''Completed''"
    show "add_payment sm s now job_id amount method =
        (Inl (HTTPException 400 ''Job must be completed first''), s)"
      and "mark_invoice_sent s now job_id =
        (Inl (HTTPException 400 ''Job must be completed first''), s)"
      using a [OF h] by simp_all
  next
    assume h: "fetch_job s job_id = Inr j \<and> j_status j = ''Completed'' \<and> method \<notin> allowed_methods"
    show "add_payment sm s now job_id amount method =
        (Inl (HTTPException 400 ''Invalid payment method''), s)"
      using b [OF h] .
  next
    assume h: "(\<forall>j \<in> set (jobs s). j_id j = job_id \<longrightarrow> j_status j \<noteq> ''Completed'') \<or>
      method \<notin> allowed_methods"
    show "isl (fst (add_payment sm s now job_id amount method))"
      and "snd (add_payment sm s now job_id amount method) = s"
      using c [OF h] by simp_all
  next
    assume h: "\<forall>j \<in> set (jobs s). j_id j = job_id \<longrightarrow> j_status j \<noteq> ''Completed''"
    show "isl (fst (mark_invoice_sent s now job_id))"
      and "snd (mark_invoice_sent s now job_id) = s"
      using d [OF h] by simp_all
  qed
qed

theorem invoice_requires_completed_witness:
  "fetch_job (demo_db [demo_job ''Scheduled'' None None] [] []) 1 =
     Inr (demo_job ''Scheduled'' None None) \<and>
   j_status (demo_job ''Scheduled'' None None) \<noteq> ''Completed'' \<and>
   add_payment sum_list (demo_db [demo_job ''Scheduled'' None None] [] [])
     ''2024-05-02T10:00:00'' 1 100 ''Cash'' =
     (Inl (HTTPException 400 ''Job must be completed first''),
      demo_db [demo_job ''Scheduled'' None None] [] []) \<and>
   mark_invoice_sent (demo_db [demo_job ''Scheduled'' None None] [] []) ''2024-05-02T10:00:00'' 1 =
     (Inl (HTTPException 400 ''Job must be completed first''),
      demo_db [demo_job ''Scheduled'' None None] [] []) \<and>
   fetch_job (demo_db [demo_job ''Completed'' (Some 150) None] [] []) 1 =
     Inr (demo_job ''Completed'' (Some 150) None) \<and>
   ''Wire'' \<notin> allowed_methods \<and>
   add_payment sum_list (demo_db [demo_job ''Completed'' (Some 150) None] [] [])
     ''2024-05-02T10:00:00'' 1 100 ''Wire'' =
     (Inl (HTTPException 400 ''Invalid payment method''),
      demo_db [demo_job ''Completed'' (Some 150) None] [] [])"
proof -
  have a: "j_status (demo_job ''Scheduled'' None None) \<noteq> ''Completed''"
    and b: "j_status (demo_job ''Completed'' (Some 150) None) = ''Completed''"
    by (simp_all add: demo_job_def)
  have c: "''Wire'' \<notin> allowed_methods"
    by (simp add: allowed_methods_def)
  from invoice_requires_completed
      [of "demo_db [demo_job ''Scheduled'' None None] [] []" 1 "demo_job ''Scheduled'' None None"
        sum_list "''2024-05-02T10:00:00''" 100 "''Cash''"]
    invoice_requires_completed
      [of "demo_db [demo_job ''Completed'' (Some 150) None] [] []" 1
        "demo_job ''Completed'' (Some 150) None" sum_list "''2024-05-02T10:00:00''" 100
        "''Wire''"]
    a b c
  show ?thesis
    by (simp add: demo_fetch_job)
qed

subsection \<open>Editing a completed job\<close>

text \<open>
  Claim C4, as the code has it. For a job that \<^verbatim>\<open>fetch_job\<close> finds and whose status
  is Completed, \<^verbatim>\<open>update_job\<close> (the one handler that edits the job's fields and
  replaces its member roster) raises the
  HTTP 400 error "Cannot edit a completed job" and leaves the store unchanged, whatever
  the form values.
\<close>

theorem update_job_refuses_completed:
  assumes "fetch_job s job_id = Inr j" and "j_status j = ''Completed''"
  shows "update_job fromisoformat s job_id client_id description scheduled_date crew crew_id
           member_ids estimated_hours estimated_cost =
         (Inl (HTTPException 400 ''Cannot edit a completed job''), s)"
  using assms by (simp add: update_job_def)

theorem update_job_refuses_completed_witness:
  "fetch_job (demo_db [demo_job ''Completed'' (Some 150) None] [] []) 1 =
     Inr (demo_job ''Completed'' (Some 150) None) \<and>
   j_status (demo_job ''Completed'' (Some 150) None) = ''Completed'' \<and>
   update_job Inr (demo_db [demo_job ''Completed'' (Some 150) None] [] []) 1 1 ''Trim''
     ''2024-06-01T09:00:00'' [] None (Some [7]) 3 120 =
     (Inl (HTTPException 400 ''Cannot edit a completed job''),
      demo_db [demo_job ''Completed'' (Some 150) None] [] [])"
proof -
  have st: "j_status (demo_job ''Completed'' (Some 150) None) = ''Completed''"
    by (simp add: demo_job_def)
  from update_job_refuses_completed [OF demo_fetch_job st] demo_fetch_job st show ?thesis
    by simp
qed

text \<open>
  \<^verbatim>\<open>update_job_status\<close> has no such check: on a Completed job it returns its redirect
  and the job is Scheduled again.
\<close>

theorem update_job_status_reopens_completed:
  "fetch_job (demo_db [demo_job ''Completed'' (Some 150) None] [] []) 1 =
     Inr (demo_job ''Completed'' (Some 150) None) \<and>
   j_status (demo_job ''Completed'' (Some 150) None) = ''Completed'' \<and>
   update_job_status (demo_db [demo_job ''Completed'' (Some 150) None] [] []) 1 ''Scheduled'' =
     (Inr (To_job (Some 1)), demo_db [demo_job ''Scheduled'' (Some 150) None] [] []) \<and>
   fetch_job (demo_db [demo_job ''Scheduled'' (Some 150) None] [] []) 1 =
     Inr (demo_job ''Scheduled'' (Some 150) None) \<and>
   j_status (demo_job ''Scheduled'' (Some 150) None) = ''Scheduled''"
proof -
  have "update_job_status (demo_db [demo_job ''Completed'' (Some 150) None] [] []) 1 ''Scheduled'' =
     (Inr (To_job (Some 1)), demo_db [demo_job ''Scheduled'' (Some 150) None] [] [])"
    by (simp add: update_job_status_def allowed_statuses_def demo_db_def demo_job_def)
  moreover have "j_status (demo_job ''Completed'' (Some 150) None) = ''Completed''"
    and "j_status (demo_job ''Scheduled'' (Some 150) None) = ''Scheduled''"
    by (simp_all add: demo_job_def)
  ultimately show ?thesis by (simp add: demo_fetch_job)
qed

subsection \<open>Recording a payment\<close>

text \<open>
  Claim C1. For a job that \<^verbatim>\<open>fetch_job\<close> finds and whose status is Completed, and a
  method among Cash, Check, Card, Other, \<^verbatim>\<open>add_payment\<close> returns its redirect and
  appends exactly one row to \<open>payments\<close>, for this job, with the amount and the method
  given. The total is SQLite's sum of the amounts of the payments of this job, those of
  no other job, the new amount last; the cost is the job's \<open>actual_cost\<close>, read as 0 when
  it is null. If the total is at least the cost, every row of this job in \<open>jobs\<close> gets
  \<open>invoice_status\<close> Paid and \<open>paid_at\<close> the time of the payment, and the job is read
  back so; if the total is below the cost, the jobs table is unchanged, so
  \<open>invoice_status\<close> and \<open>paid_at\<close> keep their values. Nothing else in the store
  changes in either case.
\<close>

theorem add_payment_reconciles:
  assumes "fetch_job s job_id = Inr j" and "j_status j = ''Completed''"
    and "method \<in> allowed_methods"
  shows "let r = add_payment sm s now job_id amount method; s' = snd r;
             row = \<lparr>p_id = autoincrement (payments_seq s) (map p_id (payments s)),
                    p_job_id = job_id, p_amount = amount, p_method = method,
                    p_paid_at = now @ ''Z''\<rparr>;
             total = sm (map p_amount (filter (\<lambda>p. p_job_id p = job_id) (payments s)) @
                       [amount]);
             cost = (case j_actual_cost j of None \<Rightarrow> 0 | Some c \<Rightarrow> c);
             paid = (\<lambda>x. x\<lparr>j_invoice_status := Some ''Paid'', j_paid_at := Some (now @ ''Z'')\<rparr>)
         in fst r = Inr (To_job_invoice job_id) \<and>
            payments s' = payments s @ [row] \<and>
            (total \<ge> cost \<longrightarrow>
               s' = s\<lparr>payments := payments s @ [row], payments_seq := p_id row,
                      jobs := map (\<lambda>x. if j_id x = job_id then paid x else x) (jobs s)\<rparr> \<and>
               fetch_job s' job_id = Inr (paid j)) \<and>
            (total < cost \<longrightarrow>
               s' = s\<lparr>payments := payments s @ [row], payments_seq := p_id row\<rparr> \<and>
               jobs s' = jobs s \<and> fetch_job s' job_id = Inr j)"
proof -
  define row where "row = \<lparr>p_id = autoincrement (payments_seq s) (map p_id (payments s)),
      p_job_id = job_id, p_amount = amount, p_method = method, p_paid_at = now @ ''Z''\<rparr>"
  define s1 where "s1 = s\<lparr>payments := payments s @ [row], payments_seq := p_id row\<rparr>"
  define total where
    "total = sm (map p_amount (filter (\<lambda>p. p_job_id p = job_id) (payments s)) @ [amount])"
  define cost where "cost = (case j_actual_cost j of None \<Rightarrow> (0::real) | Some c \<Rightarrow> c)"
  define paid where
    "paid = (\<lambda>x::job. x\<lparr>j_invoice_status := Some ''Paid'', j_paid_at := Some (now @ ''Z'')\<rparr>)"
  define s2 where "s2 = s1\<lparr>jobs := map (\<lambda>x. if j_id x = job_id then paid x else x) (jobs s1)\<rparr>"
  have tp: "total_paid sm (payments s1) job_id = total"
    by (simp add: total_paid_def s1_def row_def total_def)
  have ap: "add_payment sm s now job_id amount method =
      (Inr (To_job_invoice job_id), if total_paid sm (payments s1) job_id \<ge> cost then s2 else s1)"
    using assms by (simp add: add_payment_def row_def s1_def s2_def cost_def paid_def Let_def)
  have p1: "payments s1 = payments s @ [row]" and p2: "payments s2 = payments s @ [row]"
    by (simp_all add: s1_def s2_def)
  have s2_eq: "s2 = s\<lparr>payments := payments s @ [row], payments_seq := p_id row,
      jobs := map (\<lambda>x. if j_id x = job_id then paid x else x) (jobs s)\<rparr>"
    by (simp add: s2_def s1_def)
  have f1: "fetch_job s1 job_id = Inr j"
    using assms(1) by (simp add: fetch_job_def has_client_def s1_def)
  have "fetch_job s2 job_id = map_sum id paid (fetch_job s1 job_id)"
    by (rule fetch_job_update) (simp_all add: s2_def paid_def)
  with f1 have f2: "fetch_job s2 job_id = Inr (paid j)"
    by simp
  have j1: "jobs s1 = jobs s"
    by (simp add: s1_def)
  show ?thesis
  proof (cases "total \<ge> cost")
    case True
    with ap tp have "add_payment sm s now job_id amount method = (Inr (To_job_invoice job_id), s2)"
      by simp
    moreover note True p2 f2 s2_eq [symmetric]
    ultimately show ?thesis
      unfolding Let_def row_def [symmetric] total_def [symmetric] cost_def [symmetric]
        paid_def [symmetric]
      by simp
  next
    case False
    with ap tp have "add_payment sm s now job_id amount method = (Inr (To_job_invoice job_id), s1)"
      by simp
    moreover note False p1 f1 j1 s1_def [symmetric]
    ultimately show ?thesis
      unfolding Let_def row_def [symmetric] total_def [symmetric] cost_def [symmetric]
        paid_def [symmetric]
      by simp
  qed
qed

theorem add_payment_reconciles_witness:
  "fetch_job (demo_db [demo_job ''Completed'' (Some 150) None] [] []) 1 =
     Inr (demo_job ''Completed'' (Some 150) None) \<and>
   j_status (demo_job ''Completed'' (Some 150) None) = ''Completed'' \<and>
   ''Cash'' \<in> allowed_methods \<and> ''Card'' \<in> allowed_methods \<and>
   add_payment sum_list (demo_db [demo_job ''Completed'' (Some 150) None] [] [])
       ''2024-05-02T10:00:00'' 1 100 ''Cash'' =
     (Inr (To_job_invoice 1),
      demo_db [demo_job ''Completed'' (Some 150) None] [] [demo_payment 1 100 ''Cash'']) \<and>
   payments (snd (add_payment sum_list
       (demo_db [demo_job ''Completed'' (Some 150) None] [] [demo_payment 1 100 ''Cash''])
       ''2024-05-03T10:00:00'' 1 50 ''Card'')) =
     [demo_payment 1 100 ''Cash'',
      (demo_payment 2 50 ''Card'')\<lparr>p_paid_at := ''2024-05-03T10:00:00Z''\<rparr>] \<and>
   fetch_job (snd (add_payment sum_list
       (demo_db [demo_job ''Completed'' (Some 150) None] [] [demo_payment 1 100 ''Cash''])
       ''2024-05-03T10:00:00'' 1 50 ''Card'')) 1 =
     Inr ((demo_job ''Completed'' (Some 150) None)
           \<lparr>j_invoice_status := Some ''Paid'', j_paid_at := Some ''2024-05-03T10:00:00Z''\<rparr>)"
proof -
  let ?d0 = "demo_db [demo_job ''Completed'' (Some 150) None] [] []"
  let ?d1 = "demo_db [demo_job ''Completed'' (Some 150) None] [] [demo_payment 1 100 ''Cash'']"
  let ?r0 = "add_payment sum_list ?d0 ''2024-05-02T10:00:00'' 1 100 ''Cash''"
  let ?s1 = "snd (add_payment sum_list ?d1 ''2024-05-03T10:00:00'' 1 50 ''Card'')"
  have st: "j_status (demo_job ''Completed'' (Some 150) None) = ''Completed''"
    and ac: "j_actual_cost (demo_job ''Completed'' (Some 150) None) = Some 150"
    by (simp_all add: demo_job_def)
  have m: "''Cash'' \<in> allowed_methods" "''Card'' \<in> allowed_methods"
    by (simp_all add: allowed_methods_def)
  have f0: "fetch_job ?d0 1 = Inr (demo_job ''Completed'' (Some 150) None)"
    and f1: "fetch_job ?d1 1 = Inr (demo_job ''Completed'' (Some 150) None)"
    by (rule demo_fetch_job)+
  have p0: "payments ?d0 = []" "payments_seq ?d0 = 0"
    "payments ?d1 = [demo_payment 1 100 ''Cash'']" "payments_seq ?d1 = 1"
    by (simp_all add: demo_db_def)
  have t0: "sum_list (map p_amount (filter (\<lambda>p. p_job_id p = 1) []) @ [100::real]) < 150"
    by simp
  have i0: "autoincrement 0 (map p_id []) = 1"
    and i1: "autoincrement 1 (map p_id [demo_payment 1 100 ''Cash'']) = 2"
    by (simp_all add: autoincrement_def demo_payment_def)
  note a = add_payment_reconciles [OF f0 st m(1), where sm = sum_list
      and now = "''2024-05-02T10:00:00''" and amount = 100, unfolded Let_def ac p0 i0]
  note b = add_payment_reconciles [OF f1 st m(2), where sm = sum_list
      and now = "''2024-05-03T10:00:00''" and amount = 50, unfolded Let_def ac p0 i1]
  from a t0 have "fst ?r0 = Inr (To_job_invoice 1)"
    and "snd ?r0 = ?d0\<lparr>payments := [] @ [\<lparr>p_id = 1, p_job_id = 1, p_amount = 100,
        p_method = ''Cash'', p_paid_at = ''2024-05-02T10:00:00'' @ ''Z''\<rparr>],
      payments_seq := 1\<rparr>"
    by simp_all
  moreover have "?d0\<lparr>payments := [] @ [\<lparr>p_id = 1, p_job_id = 1, p_amount = 100,
        p_method = ''Cash'', p_paid_at = ''2024-05-02T10:00:00'' @ ''Z''\<rparr>],
      payments_seq := 1\<rparr> = ?d1"
    by (simp add: demo_db_def demo_payment_def)
  ultimately have r0: "?r0 = (Inr (To_job_invoice 1), ?d1)"
    by (simp add: prod_eq_iff)
  from b have "payments ?s1 = [demo_payment 1 100 ''Cash''] @ [\<lparr>p_id = 2, p_job_id = 1,
      p_amount = 50, p_method = ''Card'', p_paid_at = ''2024-05-03T10:00:00'' @ ''Z''\<rparr>]"
    by (rule conjunct1 [OF conjunct2])
  then have pb: "payments ?s1 = [demo_payment 1 100 ''Cash'',
      (demo_payment 2 50 ''Card'')\<lparr>p_paid_at := ''2024-05-03T10:00:00Z''\<rparr>]"
    by (simp add: demo_payment_def)
  note paid_case = b [THEN conjunct2, THEN conjunct2, THEN conjunct1, THEN mp, THEN conjunct2]
  have "fetch_job ?s1 1 = Inr ((demo_job ''Completed'' (Some 150) None)
      \<lparr>j_invoice_status := Some ''Paid'',
        j_paid_at := Some (''2024-05-03T10:00:00'' @ ''Z'')\<rparr>)"
    by (rule paid_case) (simp add: demo_payment_def)
  then have fb: "fetch_job ?s1 1 = Inr ((demo_job ''Completed'' (Some 150) None)
      \<lparr>j_invoice_status := Some ''Paid'', j_paid_at := Some ''2024-05-03T10:00:00Z''\<rparr>)"
    by simp
  from f0 st m r0 pb fb show ?thesis
    by simp
qed

subsection \<open>Fresh identifiers\<close>

lemma fold_max_ge: "a \<le> fold max xs (a::int)"
proof (induction xs arbitrary: a)
  case Nil
  show ?case by simp
next
  case (Cons x xs)
  have "a \<le> max x a" by simp
  also have "max x a \<le> fold max xs (max x a)" by (rule Cons.IH)
  finally show ?case by simp
qed

lemma fold_max_ge_elem: "x \<in> set xs \<Longrightarrow> x \<le> fold max xs (a::int)"
proof (induction xs arbitrary: a)
  case Nil
  then show ?case by simp
next
  case (Cons y ys)
  show ?case
  proof (cases "x = y")
    case True
    have "x \<le> max y a" using True by simp
    also have "max y a \<le> fold max ys (max y a)" by (rule fold_max_ge)
    finally show ?thesis by simp
  next
    case False
    with Cons.prems have "x \<in> set ys" by simp
    from Cons.IH [OF this] show ?thesis by simp
  qed
qed

lemma autoincrement_greater: "x \<in> set ids \<Longrightarrow> x < autoincrement seq ids"
proof -
  assume "x \<in> set ids"
  from fold_max_ge_elem [OF this] have "x \<le> fold max ids 0" .
  then show ?thesis by (simp add: autoincrement_def)
qed

lemma autoincrement_fresh: "autoincrement seq ids \<notin> set ids"
  using autoincrement_greater [of "autoincrement seq ids" ids seq] by auto

lemma Max_autoincrement: "Max (insert (autoincrement seq ids) (set ids)) = autoincrement seq ids"
proof (rule Max_eqI)
  show "finite (insert (autoincrement seq ids) (set ids))" by simp
  show "autoincrement seq ids \<in> insert (autoincrement seq ids) (set ids)" by simp
  fix y assume "y \<in> insert (autoincrement seq ids) (set ids)"
  then show "y \<le> autoincrement seq ids"
    using autoincrement_greater [of y ids seq] by auto
qed

lemma find_append_new:
  "find P xs = None \<Longrightarrow> find P (xs @ [y]) = (if P y then Some y else None)"
  by (induction xs) (simp_all split: if_splits)

lemma fetch_quote_row:
  "fetch_quote s quote_id = Inr q \<Longrightarrow>
   q \<in> set (quotes s) \<and> q_id q = quote_id \<and> has_client s (q_client_id q)"
proof -
  assume "fetch_quote s quote_id = Inr q"
  then have "find (\<lambda>q. q_id q = quote_id \<and> has_client s (q_client_id q)) (quotes s) = Some q"
    by (simp add: fetch_quote_def split: option.splits)
  from find_holds [OF this] show ?thesis by simp
qed

lemma fetch_quote_update:
  assumes "clients s' = clients s"
    and "quotes s' = map (\<lambda>q. if q_id q = quote_id then f q else q) (quotes s)"
    and "\<And>q. q_id (f q) = q_id q" and "\<And>q. q_client_id (f q) = q_client_id q"
  shows "fetch_quote s' quote_id = map_sum id f (fetch_quote s quote_id)"
proof -
  let ?g = "\<lambda>q. if q_id q = quote_id then f q else q"
  let ?P = "\<lambda>s q. q_id q = quote_id \<and> has_client s (q_client_id q)"
  have same: "?P s' = ?P s" using assms(1) by (simp add: has_client_def)
  have "find (?P s) (map ?g (quotes s)) = map_option ?g (find (?P s) (quotes s))"
    by (rule find_map_rows) (simp add: assms(3,4))
  moreover have "map_option ?g (find (?P s) (quotes s)) = map_option f (find (?P s) (quotes s))"
  proof (cases "find (?P s) (quotes s)")
    case None
    then show ?thesis by simp
  next
    case (Some x)
    from find_holds [OF Some] have "q_id x = quote_id" by simp
    with Some show ?thesis by simp
  qed
  ultimately show ?thesis
    unfolding fetch_quote_def same assms(2) by (simp split: option.splits)
qed

subsection \<open>Accepting a quote\<close>

text \<open>
  Claim C5. For a quote that \<^verbatim>\<open>fetch_quote\<close> finds and whose status is Draft or Sent,
  \<^verbatim>\<open>accept_quote\<close> appends
  exactly one row to \<open>jobs\<close>, under an identifier no job had, with the quote's client,
  description, estimated hours and estimated cost and with status Scheduled, and in the
  same call sets the quote's status to Accepted and its \<open>job_id\<close> to that identifier;
  nothing else in the store changes. The new job and the updated quote are what
  \<^verbatim>\<open>fetch_job\<close> and \<^verbatim>\<open>fetch_quote\<close> then return, and accepting once more returns
  the same job and changes nothing. Whenever \<^verbatim>\<open>accept_quote\<close> raises an error, the
  store is unchanged: neither effect has occurred.
\<close>

theorem accept_quote_creates_job:
  assumes "fetch_quote s quote_id = Inr q"
    and "q_status q = ''Draft'' \<or> q_status q = ''Sent''"
  shows "let rid = autoincrement (jobs_seq s) (map j_id (jobs s));
             new_job = \<lparr>j_id = rid, j_client_id = q_client_id q,
               j_description = q_description q, j_scheduled_date = now, j_crew = Some [],
               j_crew_id = None, j_estimated_hours = Some (q_estimated_hours q),
               j_estimated_cost = Some (q_estimated_cost q), j_actual_hours = None,
               j_actual_cost = None, j_status = ''Scheduled'', j_invoice_sent_at = None,
               j_invoice_status = None, j_paid_at = None, j_on_my_way_sent_at = None\<rparr>;
             accepted = (\<lambda>x. x\<lparr>q_status := ''Accepted'', q_job_id := Some rid\<rparr>);
             s' = snd (accept_quote s now quote_id)
         in fst (accept_quote s now quote_id) = Inr (To_job (Some rid)) \<and>
            rid \<notin> set (map j_id (jobs s)) \<and>
            s' = s\<lparr>jobs := jobs s @ [new_job], jobs_seq := rid,
                   quotes := map (\<lambda>x. if q_id x = quote_id then accepted x else x) (quotes s)\<rparr> \<and>
            fetch_job s' rid = Inr new_job \<and>
            fetch_quote s' quote_id = Inr (accepted q) \<and>
            accept_quote s' later quote_id = (Inr (To_job (Some rid)), s') \<and>
            (\<forall>s0 q0. isl (fst (accept_quote s0 now q0)) \<longrightarrow> snd (accept_quote s0 now q0) = s0)"
proof -
  define rid where "rid = autoincrement (jobs_seq s) (map j_id (jobs s))"
  define new_job where "new_job = \<lparr>j_id = rid, j_client_id = q_client_id q,
      j_description = q_description q, j_scheduled_date = now, j_crew = Some [],
      j_crew_id = None, j_estimated_hours = Some (q_estimated_hours q),
      j_estimated_cost = Some (q_estimated_cost q), j_actual_hours = None,
      j_actual_cost = None, j_status = ''Scheduled'', j_invoice_sent_at = None,
      j_invoice_status = None, j_paid_at = None, j_on_my_way_sent_at = None\<rparr>"
  define accepted where "accepted = (\<lambda>x::quote. x\<lparr>q_status := ''Accepted'', q_job_id := Some rid\<rparr>)"
  define s1 where "s1 = s\<lparr>jobs := jobs s @ [new_job], jobs_seq := rid\<rparr>"
  define s2 where
    "s2 = s1\<lparr>quotes := map (\<lambda>x. if q_id x = quote_id then accepted x else x) (quotes s1)\<rparr>"
  from assms(2) have ne: "q_status q \<noteq> ''Accepted''" "q_status q \<noteq> ''Declined''"
    by auto
  have fresh: "rid \<notin> set (map j_id (jobs s))"
    unfolding rid_def by (rule autoincrement_fresh)
  have "Max (set (map j_id (jobs s1))) = Max (insert rid (set (map j_id (jobs s))))"
    by (simp add: s1_def new_job_def)
  also have "\<dots> = rid"
    unfolding rid_def by (rule Max_autoincrement)
  finally have mx: "Max (set (map j_id (jobs s1))) = rid" .
  have "accept_quote s now quote_id =
      (let job_id = Max (set (map j_id (jobs s1)))
       in (Inr (To_job (Some job_id)),
           s1\<lparr>quotes := map (\<lambda>x. if q_id x = quote_id
                  then x\<lparr>q_status := ''Accepted'', q_job_id := Some job_id\<rparr> else x)
                  (quotes s1)\<rparr>))"
    using assms(1) ne
    by (simp add: accept_quote_def Let_def s1_def new_job_def rid_def del: set_map set_append)
  then have ap: "accept_quote s now quote_id = (Inr (To_job (Some rid)), s2)"
    unfolding mx Let_def by (simp add: s2_def accepted_def)
  have s2_eq: "s2 = s\<lparr>jobs := jobs s @ [new_job], jobs_seq := rid,
      quotes := map (\<lambda>x. if q_id x = quote_id then accepted x else x) (quotes s)\<rparr>"
    by (simp add: s2_def s1_def)
  from fetch_quote_row [OF assms(1)] have hc: "has_client s (q_client_id q)"
    by simp
  have none: "find (\<lambda>j. j_id j = rid \<and> has_client s2 (j_client_id j)) (jobs s) = None"
    using fresh by (auto simp: find_None_iff)
  have hc2: "has_client s2 (q_client_id q)"
    using hc by (simp add: has_client_def s2_eq)
  have fj: "fetch_job s2 rid = Inr new_job"
  proof -
    have "jobs s2 = jobs s @ [new_job]" by (simp add: s2_eq)
    then have "find (\<lambda>j. j_id j = rid \<and> has_client s2 (j_client_id j)) (jobs s2) =
        (if j_id new_job = rid \<and> has_client s2 (j_client_id new_job) then Some new_job else None)"
      using find_append_new [OF none] by simp
    moreover have "j_id new_job = rid" "j_client_id new_job = q_client_id q"
      by (simp_all add: new_job_def)
    ultimately show ?thesis using hc2 by (simp add: fetch_job_def)
  qed
  have "fetch_quote s2 quote_id = map_sum id accepted (fetch_quote s quote_id)"
    by (rule fetch_quote_update) (simp_all add: s2_eq accepted_def)
  with assms(1) have fq: "fetch_quote s2 quote_id = Inr (accepted q)"
    by simp
  have again: "accept_quote s2 later quote_id = (Inr (To_job (Some rid)), s2)"
    using fq by (simp add: accept_quote_def accepted_def)
  have err: "\<forall>s0 q0. isl (fst (accept_quote s0 now q0)) \<longrightarrow> snd (accept_quote s0 now q0) = s0"
    by (simp add: accept_quote_def Let_def split: sum.splits)
  from ap fresh s2_eq fj fq again err show ?thesis
    unfolding Let_def rid_def [symmetric] new_job_def [symmetric]
    by (simp add: accepted_def)
qed


theorem accept_quote_creates_job_witness:
  "send_quote (demo_db [] [demo_quote ''Draft'' None] []) 1 =
     (Inr (To_quote 1), demo_db [] [demo_quote ''Sent'' None] []) \<and>
   fetch_quote (demo_db [] [demo_quote ''Sent'' None] []) 1 = Inr (demo_quote ''Sent'' None) \<and>
   q_status (demo_quote ''Sent'' None) = ''Sent'' \<and>
   accept_quote (demo_db [] [demo_quote ''Sent'' None] []) ''2024-05-01T09:00:00'' 1 =
     (Inr (To_job (Some 1)),
      demo_db [demo_job ''Scheduled'' None None] [demo_quote ''Accepted'' (Some 1)] []) \<and>
   fetch_job (demo_db [demo_job ''Scheduled'' None None] [demo_quote ''Accepted'' (Some 1)] []) 1 =
     Inr (demo_job ''Scheduled'' None None) \<and>
   fetch_quote (demo_db [demo_job ''Scheduled'' None None] [demo_quote ''Accepted'' (Some 1)] []) 1 =
     Inr (demo_quote ''Accepted'' (Some 1)) \<and>
   accept_quote (demo_db [demo_job ''Scheduled'' None None] [demo_quote ''Accepted'' (Some 1)] [])
     ''2024-05-01T09:05:00'' 1 =
     (Inr (To_job (Some 1)),
      demo_db [demo_job ''Scheduled'' None None] [demo_quote ''Accepted'' (Some 1)] [])"
proof -
  let ?d = "demo_db [] [demo_quote ''Sent'' None] []"
  let ?d' = "demo_db [demo_job ''Scheduled'' None None] [demo_quote ''Accepted'' (Some 1)] []"
  have st: "q_status (demo_quote ''Sent'' None) = ''Sent''"
    by (simp add: demo_quote_def)
  then have st': "q_status (demo_quote ''Sent'' None) = ''Draft'' \<or>
      q_status (demo_quote ''Sent'' None) = ''Sent''"
    by simp
  have rid: "autoincrement (jobs_seq ?d) (map j_id (jobs ?d)) = 1"
    by (simp add: autoincrement_def demo_db_def)
  note a = accept_quote_creates_job [OF demo_fetch_quote st', of "[]" "[]"
      "''2024-05-01T09:00:00''" "''2024-05-01T09:05:00''", unfolded Let_def rid]
  have sd: "send_quote (demo_db [] [demo_quote ''Draft'' None] []) 1 = (Inr (To_quote 1), ?d)"
    by (simp add: send_quote_def fetch_quote_def has_client_def demo_db_def demo_quote_def
        demo_client_def)
  note f = a [THEN conjunct1]
  note s0 = a [THEN conjunct2, THEN conjunct2, THEN conjunct1]
  note r0 = a [THEN conjunct2, THEN conjunct2, THEN conjunct2, THEN conjunct2, THEN conjunct2,
      THEN conjunct1]
  have "?d\<lparr>jobs := jobs ?d @ [\<lparr>j_id = 1, j_client_id = q_client_id (demo_quote ''Sent'' None),
               j_description = q_description (demo_quote ''Sent'' None),
               j_scheduled_date = ''2024-05-01T09:00:00'', j_crew = Some [],
               j_crew_id = None,
               j_estimated_hours = Some (q_estimated_hours (demo_quote ''Sent'' None)),
               j_estimated_cost = Some (q_estimated_cost (demo_quote ''Sent'' None)),
               j_actual_hours = None,
               j_actual_cost = None, j_status = ''Scheduled'', j_invoice_sent_at = None,
               j_invoice_status = None, j_paid_at = None, j_on_my_way_sent_at = None\<rparr>],
           jobs_seq := 1,
           quotes := map (\<lambda>x. if q_id x = 1 then x\<lparr>q_status := ''Accepted'', q_job_id := Some 1\<rparr>
                      else x) (quotes ?d)\<rparr> = ?d'"
    by (simp add: demo_db_def demo_quote_def demo_job_def)
  with s0 have s: "snd (accept_quote ?d ''2024-05-01T09:00:00'' 1) = ?d'"
    by (rule trans)
  from f s have ap: "accept_quote ?d ''2024-05-01T09:00:00'' 1 = (Inr (To_job (Some 1)), ?d')"
    by (simp add: prod_eq_iff)
  from r0 have again: "accept_quote ?d' ''2024-05-01T09:05:00'' 1 = (Inr (To_job (Some 1)), ?d')"
    unfolding s .
  from sd st ap again show ?thesis
    by (simp add: demo_fetch_quote demo_fetch_job)
qed

subsection \<open>The jobs table under each request\<close>

lemma autoincrement_fresh_map: "autoincrement seq (map f xs) \<notin> f ` set xs"
  using autoincrement_fresh [of seq "map f xs"] by simp

lemma row_kept_refl: "row_kept r j j"
  by (simp add: row_kept_def)

lemma step_rows:
  assumes "js' = map g js @ extra" and "\<And>j. row_kept r j (g j)"
    and "\<And>e. e \<in> set extra \<Longrightarrow> row_new js e"
  shows "jobs_step r js js'"
  unfolding jobs_step_def
proof (intro exI conjI)
  show "js' = map g js @ extra" by (rule assms(1))
  show "\<forall>j. row_kept r j (g j)" using assms(2) by simp
  show "\<forall>e \<in> set extra. row_new js e" using assms(3) by simp
qed

lemma step_same: "js' = js \<Longrightarrow> jobs_step r js js'"
  by (rule step_rows [where g = "\<lambda>j. j" and extra = "[]"]) (simp_all add: row_kept_refl)

lemma step_map_all:
  assumes "js' = map g js" and "\<And>j. row_kept r j (g j)"
  shows "jobs_step r js js'"
  by (rule step_rows [where g = g and extra = "[]"]) (simp_all add: assms)

lemma step_map:
  assumes "js' = map (\<lambda>j. if j_id j = k then f j else j) js"
    and "\<And>j. j_id j = k \<Longrightarrow> row_kept r j (f j)"
  shows "jobs_step r js js'"
proof (rule step_map_all [OF assms(1)])
  fix j show "row_kept r j (if j_id j = k then f j else j)"
    using assms(2) [of j] by (simp add: row_kept_refl)
qed

lemma step_append:
  assumes "js' = js @ [e]" and "row_new js e"
  shows "jobs_step r js js'"
  by (rule step_rows [where g = "\<lambda>j. j" and extra = "[e]"]) (simp_all add: assms row_kept_refl)

lemma jobs_create_client: "jobs (snd (create_client s n a p e)) = jobs s"
  by (simp add: create_client_def Let_def)

lemma jobs_update_client: "jobs (snd (update_client s c n a p e)) = jobs s"
  by (simp add: update_client_def split: sum.splits)

lemma jobs_delete_client: "jobs (snd (delete_client s c)) = jobs s"
  by (simp add: delete_client_def Let_def split: sum.splits)

lemma jobs_create_crew: "jobs (snd (create_crew s n)) = jobs s"
  by (simp add: create_crew_def Let_def)

lemma jobs_update_crew: "jobs (snd (update_crew s c n)) = jobs s"
  by (simp add: update_crew_def split: sum.splits)

lemma jobs_create_member: "jobs (snd (create_member s n)) = jobs s"
  by (simp add: create_member_def Let_def)

lemma jobs_update_member: "jobs (snd (update_member s m n)) = jobs s"
  by (simp add: update_member_def split: sum.splits)

lemma jobs_delete_member: "jobs (snd (delete_member s m)) = jobs s"
  by (simp add: delete_member_def split: sum.splits)

lemma jobs_create_quote: "jobs (snd (create_quote s now c d eh ec vu)) = jobs s"
  by (simp add: create_quote_def Let_def split: sum.splits)

lemma jobs_decline_quote: "jobs (snd (decline_quote s q)) = jobs s"
  by (simp add: decline_quote_def split: sum.splits)

lemma jobs_send_quote: "jobs (snd (send_quote s q)) = jobs s"
  by (simp add: send_quote_def split: sum.splits)

lemma jobs_add_task: "jobs (snd (add_task s k d)) = jobs s"
  by (simp add: add_task_def Let_def)

lemma jobs_toggle_task: "jobs (snd (toggle_task s t)) = jobs s"
  by (simp add: toggle_task_def Let_def split: option.splits)

lemma step_delete_crew: "jobs_step (Delete_crew c) (jobs s) (jobs (snd (delete_crew s c)))"
proof (cases "fetch_crew s c")
  case (Inl e)
  then show ?thesis by (intro step_same) (simp add: delete_crew_def)
next
  case (Inr x)
  show ?thesis
  proof (rule step_map_all)
    show "jobs (snd (delete_crew s c)) =
        map (\<lambda>j. if j_crew_id j = Some c then j\<lparr>j_crew_id := None\<rparr> else j) (jobs s)"
      using Inr by (simp add: delete_crew_def)
    fix j show "row_kept (Delete_crew c) j (if j_crew_id j = Some c then j\<lparr>j_crew_id := None\<rparr> else j)"
      by (simp add: row_kept_def)
  qed
qed

lemma step_accept_quote:
  "jobs_step (Accept_quote now q) (jobs s) (jobs (snd (accept_quote s now q)))"
proof -
  have "jobs (snd (accept_quote s now q)) = jobs s \<or>
      (\<exists>e. jobs (snd (accept_quote s now q)) = jobs s @ [e] \<and> row_new (jobs s) e)"
    by (simp add: accept_quote_def Let_def row_new_def autoincrement_fresh_map split: sum.splits)
  then show ?thesis
  proof (elim disjE exE conjE)
    assume "jobs (snd (accept_quote s now q)) = jobs s"
    then show ?thesis by (rule step_same)
  next
    fix e assume "jobs (snd (accept_quote s now q)) = jobs s @ [e]" and "row_new (jobs s) e"
    then show ?thesis by (rule step_append)
  qed
qed

lemma step_notify_customer:
  "jobs_step (Notify_customer now k) (jobs s) (jobs (snd (notify_customer s now k)))"
proof (cases "fetch_job s k")
  case (Inl e)
  then show ?thesis by (intro step_same) (simp add: notify_customer_def)
next
  case (Inr x)
  show ?thesis
  proof (rule step_map)
    show "jobs (snd (notify_customer s now k)) =
        map (\<lambda>j. if j_id j = k then j\<lparr>j_on_my_way_sent_at := Some (now @ ''Z'')\<rparr> else j) (jobs s)"
      using Inr by (simp add: notify_customer_def)
    fix j show "row_kept (Notify_customer now k) j (j\<lparr>j_on_my_way_sent_at := Some (now @ ''Z'')\<rparr>)"
      by (simp add: row_kept_def)
  qed
qed

lemma step_create_job:
  "jobs_step (Create_job c d sd cr crid mids eh ec) (jobs s)
     (jobs (snd (create_job fi s c d sd cr crid mids eh ec)))"
proof -
  have "jobs (snd (create_job fi s c d sd cr crid mids eh ec)) = jobs s \<or>
      (\<exists>e. jobs (snd (create_job fi s c d sd cr crid mids eh ec)) = jobs s @ [e] \<and>
         row_new (jobs s) e)"
    by (simp add: create_job_def Let_def row_new_def autoincrement_fresh_map
        split: sum.splits option.splits)
  then show ?thesis
  proof (elim disjE exE conjE)
    assume "jobs (snd (create_job fi s c d sd cr crid mids eh ec)) = jobs s"
    then show ?thesis by (rule step_same)
  next
    fix e assume "jobs (snd (create_job fi s c d sd cr crid mids eh ec)) = jobs s @ [e]"
      and "row_new (jobs s) e"
    then show ?thesis by (rule step_append)
  qed
qed

lemma step_update_job:
  "jobs_step (Update_job k c d sd cr crid mids eh ec) (jobs s)
     (jobs (snd (update_job fi s k c d sd cr crid mids eh ec)))"
proof (cases "fi sd")
  case (Inl err)
  then have "jobs (snd (update_job fi s k c d sd cr crid mids eh ec)) = jobs s"
    by (simp add: update_job_def split: sum.splits)
  then show ?thesis by (rule step_same)
next
  case (Inr dt)
  define f where "f = (\<lambda>j::job. j\<lparr>j_client_id := c, j_description := strip d,
      j_scheduled_date := dt, j_crew := Some (strip cr), j_crew_id := crew_id_value crid,
      j_estimated_hours := Some eh, j_estimated_cost := Some ec\<rparr>)"
  have kept: "row_kept (Update_job k c d sd cr crid mids eh ec) j (f j)" for j
    by (simp add: row_kept_def f_def)
  from Inr have "jobs (snd (update_job fi s k c d sd cr crid mids eh ec)) = jobs s \<or>
      jobs (snd (update_job fi s k c d sd cr crid mids eh ec)) =
         map (\<lambda>j. if j_id j = k then f j else j) (jobs s)"
    by (simp add: update_job_def Let_def f_def split: sum.splits option.splits)
  then show ?thesis
  proof
    assume "jobs (snd (update_job fi s k c d sd cr crid mids eh ec)) = jobs s"
    then show ?thesis by (rule step_same)
  next
    assume "jobs (snd (update_job fi s k c d sd cr crid mids eh ec)) =
         map (\<lambda>j. if j_id j = k then f j else j) (jobs s)"
    then show ?thesis by (rule step_map) (rule kept)
  qed
qed

lemma step_update_job_status:
  "jobs_step (Update_job_status k st) (jobs s) (jobs (snd (update_job_status s k st)))"
proof (cases "st \<in> allowed_statuses")
  case False
  then show ?thesis by (intro step_same) (simp add: update_job_status_def)
next
  case True
  show ?thesis
  proof (rule step_map)
    show "jobs (snd (update_job_status s k st)) =
        map (\<lambda>j. if j_id j = k then j\<lparr>j_status := st\<rparr> else j) (jobs s)"
      using True by (simp add: update_job_status_def)
    fix j show "row_kept (Update_job_status k st) j (j\<lparr>j_status := st\<rparr>)"
      by (simp add: row_kept_def)
  qed
qed

lemma step_complete_job:
  "jobs_step (Complete_job k ah ac st) (jobs s) (jobs (snd (complete_job s k ah ac st)))"
proof (rule step_map)
  show "jobs (snd (complete_job s k ah ac st)) =
      map (\<lambda>j. if j_id j = k
        then j\<lparr>j_status := st, j_actual_hours := Some ah, j_actual_cost := Some ac\<rparr> else j) (jobs s)"
    by (simp add: complete_job_def)
  fix j :: job assume "j_id j = k"
  then show "row_kept (Complete_job k ah ac st) j
      (j\<lparr>j_status := st, j_actual_hours := Some ah, j_actual_cost := Some ac\<rparr>)"
    by (simp add: row_kept_def)
qed

lemma step_mark_invoice_sent:
  "jobs_step (Mark_invoice_sent now k) (jobs s) (jobs (snd (mark_invoice_sent s now k)))"
proof -
  define f where "f = (\<lambda>j::job. j\<lparr>j_invoice_sent_at := Some (now @ ''Z''),
      j_invoice_status := Some ''Sent''\<rparr>)"
  have kept: "row_kept (Mark_invoice_sent now k) j (f j)" if "j_id j = k" for j
    using that by (simp add: row_kept_def f_def)
  have "jobs (snd (mark_invoice_sent s now k)) = jobs s \<or>
      jobs (snd (mark_invoice_sent s now k)) = map (\<lambda>j. if j_id j = k then f j else j) (jobs s)"
    by (simp add: mark_invoice_sent_def Let_def f_def split: sum.splits)
  then show ?thesis
  proof
    assume "jobs (snd (mark_invoice_sent s now k)) = jobs s"
    then show ?thesis by (rule step_same)
  next
    assume "jobs (snd (mark_invoice_sent s now k)) =
        map (\<lambda>j. if j_id j = k then f j else j) (jobs s)"
    then show ?thesis by (rule step_map) (rule kept)
  qed
qed

lemma step_add_payment:
  "jobs_step (Add_payment now k amount method) (jobs s)
     (jobs (snd (add_payment sm s now k amount method)))"
proof -
  define f where "f = (\<lambda>j::job. j\<lparr>j_invoice_status := Some ''Paid'',
      j_paid_at := Some (now @ ''Z'')\<rparr>)"
  have kept: "row_kept (Add_payment now k amount method) j (f j)" for j
    by (simp add: row_kept_def f_def)
  have "jobs (snd (add_payment sm s now k amount method)) = jobs s \<or>
      jobs (snd (add_payment sm s now k amount method)) =
        map (\<lambda>j. if j_id j = k then f j else j) (jobs s)"
    by (simp add: add_payment_def Let_def f_def split: sum.splits)
  then show ?thesis
  proof
    assume "jobs (snd (add_payment sm s now k amount method)) = jobs s"
    then show ?thesis by (rule step_same)
  next
    assume "jobs (snd (add_payment sm s now k amount method)) =
        map (\<lambda>j. if j_id j = k then f j else j) (jobs s)"
    then show ?thesis by (rule step_map) (rule kept)
  qed
qed

lemma handle_jobs_step: "jobs_step r (jobs s) (jobs (snd (handle fi sm s r)))"
proof (cases r)
  case Create_client then show ?thesis by (simp add: step_same jobs_create_client)
next
  case Update_client then show ?thesis by (simp add: step_same jobs_update_client)
next
  case Delete_client then show ?thesis by (simp add: step_same jobs_delete_client)
next
  case Create_crew then show ?thesis by (simp add: step_same jobs_create_crew)
next
  case Update_crew then show ?thesis by (simp add: step_same jobs_update_crew)
next
  case Delete_crew then show ?thesis by (simp add: step_delete_crew)
next
  case Create_member then show ?thesis by (simp add: step_same jobs_create_member)
next
  case Update_member then show ?thesis by (simp add: step_same jobs_update_member)
next
  case Delete_member then show ?thesis by (simp add: step_same jobs_delete_member)
next
  case Create_quote then show ?thesis by (simp add: step_same jobs_create_quote)
next
  case Accept_quote then show ?thesis by (simp add: step_accept_quote)
next
  case Decline_quote then show ?thesis by (simp add: step_same jobs_decline_quote)
next
  case Send_quote then show ?thesis by (simp add: step_same jobs_send_quote)
next
  case Notify_customer then show ?thesis by (simp add: step_notify_customer)
next
  case Create_job then show ?thesis by (simp add: step_create_job)
next
  case Update_job then show ?thesis by (simp add: step_update_job)
next
  case Add_task then show ?thesis by (simp add: step_same jobs_add_task)
next
  case Toggle_task then show ?thesis by (simp add: step_same jobs_toggle_task)
next
  case Update_job_status then show ?thesis by (simp add: step_update_job_status)
next
  case Complete_job then show ?thesis by (simp add: step_complete_job)
next
  case Mark_invoice_sent then show ?thesis by (simp add: step_mark_invoice_sent)
next
  case Add_payment then show ?thesis by (simp add: step_add_payment)
qed

subsection \<open>A paid invoice\<close>

lemma jobs_step_rows:
  assumes "jobs_step r js js'"
  shows "\<exists>g extra. js' = map g js @ extra \<and> (\<forall>j. row_kept r j (g j)) \<and>
      (\<forall>e \<in> set extra. row_new js e)"
  using assms unfolding jobs_step_def .

lemma handle_keeps_paid:
  assumes "is_paid s job_id" and "\<not> marks_sent r job_id"
  shows "is_paid (snd (handle fi sm s r)) job_id"
proof -
  let ?js' = "jobs (snd (handle fi sm s r))"
  from jobs_step_rows [OF handle_jobs_step [of r s fi sm]] obtain g extra
    where h: "?js' = map g (jobs s) @ extra \<and> (\<forall>j. row_kept r j (g j)) \<and>
      (\<forall>e \<in> set extra. row_new (jobs s) e)"
    by (elim exE)
  from h have js': "?js' = map g (jobs s) @ extra" by (rule conjunct1)
  from h have kept: "row_kept r j (g j)" for j by simp
  from h have new: "row_new (jobs s) e" if "e \<in> set extra" for e using that by simp
  from assms(1) obtain j0 where j0: "j0 \<in> set (jobs s)" "j_id j0 = job_id"
    by (auto simp: is_paid_def list_ex_iff)
  from assms(1) have paid: "j_invoice_status j = Some ''Paid''"
    if "j \<in> set (jobs s)" "j_id j = job_id" for j
    using that by (simp add: is_paid_def list_all_iff)
  have "g j0 \<in> set ?js'"
    using j0(1) by (simp add: js')
  moreover have "j_id (g j0) = job_id"
    using kept [of j0] j0(2) by (simp add: row_kept_def)
  ultimately have ex: "list_ex (\<lambda>j. j_id j = job_id) ?js'"
    unfolding list_ex_iff by blast
  have "j_invoice_status j' = Some ''Paid''" if m: "j' \<in> set ?js'" and i: "j_id j' = job_id" for j'
  proof -
    from m have "j' \<in> set (map g (jobs s)) \<or> j' \<in> set extra"
      by (simp add: js')
    then show ?thesis
    proof
      assume "j' \<in> set (map g (jobs s))"
      then obtain j where j: "j \<in> set (jobs s)" "j' = g j"
        by auto
      from kept [of j] have k: "j_id (g j) = j_id j"
        and st: "j_invoice_status (g j) = j_invoice_status j \<or>
          j_invoice_status (g j) = Some ''Paid'' \<or> marks_sent r (j_id j)"
        by (simp_all add: row_kept_def)
      from k j(2) i have "j_id j = job_id" by simp
      with st paid [OF j(1)] assms(2) j(2) show ?thesis by auto
    next
      assume "j' \<in> set extra"
      from new [OF this] have "j_id j' \<notin> set (map j_id (jobs s))"
        by (simp add: row_new_def)
      with j0 i show ?thesis by auto
    qed
  qed
  then have "list_all (\<lambda>j. j_id j = job_id \<longrightarrow> j_invoice_status j = Some ''Paid'') ?js'"
    unfolding list_all_iff by blast
  with ex show ?thesis
    by (simp add: is_paid_def)
qed

text \<open>
  Claim C3, as the code has it. Once a job is paid, it is still paid after every sequence
  of requests that does not ask to mark the invoice of this job as sent: payments,
  completions, status updates, edits and all requests about other jobs, quotes, clients,
  crews and members keep \<open>invoice_status\<close> at Paid.
\<close>

theorem paid_stays_paid:
  assumes "is_paid s job_id" and "\<forall>r \<in> set rs. \<not> marks_sent r job_id"
  shows "is_paid (run fi sm s rs) job_id"
  using assms
proof (induction rs arbitrary: s)
  case Nil
  then show ?case by simp
next
  case (Cons r rs)
  from Cons.prems have "is_paid (snd (handle fi sm s r)) job_id"
    by (simp add: handle_keeps_paid)
  moreover from Cons.prems have "\<forall>r \<in> set rs. \<not> marks_sent r job_id"
    by simp
  ultimately have "is_paid (run fi sm (snd (handle fi sm s r)) rs) job_id"
    by (rule Cons.IH)
  then show ?case by simp
qed

theorem paid_stays_paid_witness:
  "is_paid (demo_db [demo_job ''Completed'' (Some 150) (Some ''Paid'')] []
      [demo_payment 1 150 ''Cash'']) 1 \<and>
   \<not> marks_sent (Complete_job 1 3 500 ''Completed'') 1 \<and>
   \<not> marks_sent (Update_job_status 1 ''Scheduled'') 1 \<and>
   \<not> marks_sent (Mark_invoice_sent ''2024-05-04T10:00:00'' 2) 1 \<and>
   is_paid (run Inr sum_list (demo_db [demo_job ''Completed'' (Some 150) (Some ''Paid'')] []
      [demo_payment 1 150 ''Cash''])
      [Complete_job 1 3 500 ''Completed'', Update_job_status 1 ''Scheduled'',
       Mark_invoice_sent ''2024-05-04T10:00:00'' 2]) 1"
proof -
  have p: "is_paid (demo_db [demo_job ''Completed'' (Some 150) (Some ''Paid'')] []
      [demo_payment 1 150 ''Cash'']) 1"
    by (simp add: is_paid_def demo_db_def demo_job_def)
  have n: "\<forall>r \<in> set [Complete_job 1 3 500 ''Completed'', Update_job_status 1 ''Scheduled'',
       Mark_invoice_sent ''2024-05-04T10:00:00'' 2]. \<not> marks_sent r 1"
    by simp
  from paid_stays_paid [OF p n, of Inr sum_list] p show ?thesis
    by simp
qed

text \<open>
  \<^verbatim>\<open>mark_invoice_sent\<close> writes Sent whatever the invoice status was. From the empty
  store: a client, a job, its completion at cost 150 and a payment of 150 make the job
  paid (the sum of the one payment is the payment); marking the invoice as sent then puts
  its \<open>invoice_status\<close> back to Sent.
\<close>

theorem mark_invoice_sent_reverts_paid:
  "is_paid (run Inr sum_list empty_db
      [Create_client ''Ann'' [] [] [],
       Create_job 1 ''Mow'' ''2024-05-01T09:00:00'' [] None None 2 100,
       Complete_job 1 2 150 ''Completed'',
       Add_payment ''2024-05-02T10:00:00'' 1 150 ''Cash'']) 1 \<and>
   \<not> is_paid (run Inr sum_list empty_db
      [Create_client ''Ann'' [] [] [],
       Create_job 1 ''Mow'' ''2024-05-01T09:00:00'' [] None None 2 100,
       Complete_job 1 2 150 ''Completed'',
       Add_payment ''2024-05-02T10:00:00'' 1 150 ''Cash'',
       Mark_invoice_sent ''2024-05-03T10:00:00'' 1]) 1 \<and>
   map j_invoice_status (jobs (run Inr sum_list empty_db
      [Create_client ''Ann'' [] [] [],
       Create_job 1 ''Mow'' ''2024-05-01T09:00:00'' [] None None 2 100,
       Complete_job 1 2 150 ''Completed'',
       Add_payment ''2024-05-02T10:00:00'' 1 150 ''Cash'',
       Mark_invoice_sent ''2024-05-03T10:00:00'' 1])) = [Some ''Sent'']"
  by (simp add: is_paid_def empty_db_def create_client_def create_job_def complete_job_def
      add_payment_def mark_invoice_sent_def fetch_job_def has_client_def total_paid_def
      allowed_methods_def autoincrement_def strip_def isspace_def crew_id_value_def Let_def)

text \<open>
  In general: for a Completed job, \<^verbatim>\<open>mark_invoice_sent\<close> returns its redirect and the
  job is read back with \<open>invoice_status\<close> Sent, whatever it was.
\<close>

lemma mark_invoice_sent_writes_sent:
  assumes "fetch_job s job_id = Inr j" and "j_status j = ''Completed''"
  shows "fst (mark_invoice_sent s now job_id) = Inr (To_job_invoice job_id) \<and>
         fetch_job (snd (mark_invoice_sent s now job_id)) job_id =
           Inr (j\<lparr>j_invoice_sent_at := Some (now @ ''Z''), j_invoice_status := Some ''Sent''\<rparr>)"
proof -
  let ?f = "\<lambda>x::job. x\<lparr>j_invoice_sent_at := Some (now @ ''Z''),
      j_invoice_status := Some ''Sent''\<rparr>"
  have "fetch_job (snd (mark_invoice_sent s now job_id)) job_id =
      map_sum id ?f (fetch_job s job_id)"
    using assms by (intro fetch_job_update) (simp_all add: mark_invoice_sent_def)
  with assms show ?thesis
    by (simp add: mark_invoice_sent_def)
qed

subsection \<open>Actual hours and cost\<close>

text \<open>
  The invariant behind claim C7: each job either is among the jobs \<open>C\<close> that some
  request has completed, or has null actual hours and cost.
\<close>

lemma handle_actuals:
  assumes "\<forall>j \<in> set (jobs s). j_id j \<in> C \<or> (j_actual_hours j = None \<and> j_actual_cost j = None)"
  shows "\<forall>j \<in> set (jobs (snd (handle fi sm s r))).
     j_id j \<in> C \<union> {k. completes r k} \<or> (j_actual_hours j = None \<and> j_actual_cost j = None)"
proof
  let ?js' = "jobs (snd (handle fi sm s r))"
  fix j' assume m: "j' \<in> set ?js'"
  from jobs_step_rows [OF handle_jobs_step [of r s fi sm]] obtain g extra
    where h: "?js' = map g (jobs s) @ extra \<and> (\<forall>j. row_kept r j (g j)) \<and>
      (\<forall>e \<in> set extra. row_new (jobs s) e)"
    by (elim exE)
  from h m have "j' \<in> set (map g (jobs s)) \<or> j' \<in> set extra"
    by simp
  then show "j_id j' \<in> C \<union> {k. completes r k} \<or>
      (j_actual_hours j' = None \<and> j_actual_cost j' = None)"
  proof
    assume "j' \<in> set (map g (jobs s))"
    then obtain j where j: "j \<in> set (jobs s)" "j' = g j"
      by auto
    from h have "row_kept r j (g j)" by simp
    then have k: "j_id (g j) = j_id j"
      and a: "completes r (j_id j) \<or>
        (j_actual_hours (g j) = j_actual_hours j \<and> j_actual_cost (g j) = j_actual_cost j)"
      by (simp_all add: row_kept_def)
    from assms j(1) have "j_id j \<in> C \<or> (j_actual_hours j = None \<and> j_actual_cost j = None)"
      by simp
    with k a j(2) show ?thesis by auto
  next
    assume "j' \<in> set extra"
    with h have "row_new (jobs s) j'" by simp
    then show ?thesis by (simp add: row_new_def)
  qed
qed

lemma run_actuals:
  assumes "\<forall>j \<in> set (jobs s). j_id j \<in> C \<or> (j_actual_hours j = None \<and> j_actual_cost j = None)"
  shows "\<forall>j \<in> set (jobs (run fi sm s rs)).
     j_id j \<in> C \<or> (\<exists>r \<in> set rs. completes r (j_id j)) \<or>
     (j_actual_hours j = None \<and> j_actual_cost j = None)"
  using assms
proof (induction rs arbitrary: s C)
  case Nil
  then show ?case by simp
next
  case (Cons r rs)
  from handle_actuals [OF Cons.prems]
  have "\<forall>j \<in> set (jobs (snd (handle fi sm s r))).
     j_id j \<in> C \<union> {k. completes r k} \<or> (j_actual_hours j = None \<and> j_actual_cost j = None)" .
  from Cons.IH [OF this]
  have "\<forall>j \<in> set (jobs (run fi sm (snd (handle fi sm s r)) rs)).
     j_id j \<in> C \<union> {k. completes r k} \<or> (\<exists>x \<in> set rs. completes x (j_id j)) \<or>
     (j_actual_hours j = None \<and> j_actual_cost j = None)" .
  then show ?case by auto
qed

text \<open>
  Claim C7, as the code has it. In every store reached from the empty store by a sequence
  of requests, every job that no request of the sequence has completed (no call of
  \<^verbatim>\<open>complete_job\<close> with its identifier) has null actual hours and null actual cost:
  \<^verbatim>\<open>complete_job\<close> is the only writer of the two columns.
\<close>

theorem actuals_null_until_complete:
  "\<forall>j \<in> set (jobs (run fi sm empty_db rs)).
     (\<forall>r \<in> set rs. \<not> completes r (j_id j)) \<longrightarrow>
     j_actual_hours j = None \<and> j_actual_cost j = None"
proof -
  have "\<forall>j \<in> set (jobs empty_db).
      j_id j \<in> {} \<or> (j_actual_hours j = None \<and> j_actual_cost j = None)"
    by (simp add: empty_db_def)
  from run_actuals [OF this, of fi sm rs] show ?thesis
    by auto
qed

theorem actuals_null_until_complete_witness:
  "jobs (run Inr sum_list empty_db
      [Create_client ''Ann'' [] [] [],
       Create_job 1 ''Mow'' ''2024-05-01T09:00:00'' [] None None 2 100,
       Update_job_status 1 ''In progress'']) = [demo_job ''In progress'' None None] \<and>
   j_id (demo_job ''In progress'' None None) = 1 \<and>
   \<not> completes (Create_client ''Ann'' [] [] []) 1 \<and>
   \<not> completes (Create_job 1 ''Mow'' ''2024-05-01T09:00:00'' [] None None 2 100) 1 \<and>
   \<not> completes (Update_job_status 1 ''In progress'') 1 \<and>
   j_actual_hours (demo_job ''In progress'' None None) = None \<and>
   j_actual_cost (demo_job ''In progress'' None None) = None"
proof -
  let ?rs = "[Create_client ''Ann'' [] [] [],
       Create_job 1 ''Mow'' ''2024-05-01T09:00:00'' [] None None 2 100,
       Update_job_status 1 ''In progress'']"
  have js: "jobs (run Inr sum_list empty_db ?rs) = [demo_job ''In progress'' None None]"
    by (simp add: empty_db_def create_client_def create_job_def update_job_status_def
        allowed_statuses_def autoincrement_def strip_def isspace_def crew_id_value_def
        demo_job_def Let_def)
  have i: "j_id (demo_job ''In progress'' None None) = 1"
    by (simp add: demo_job_def)
  have n: "\<forall>r \<in> set ?rs. \<not> completes r (j_id (demo_job ''In progress'' None None))"
    by (simp add: i)
  from actuals_null_until_complete [of Inr sum_list ?rs] js
  have "(\<forall>r \<in> set ?rs. \<not> completes r (j_id (demo_job ''In progress'' None None))) \<longrightarrow>
     j_actual_hours (demo_job ''In progress'' None None) = None \<and>
     j_actual_cost (demo_job ''In progress'' None None) = None"
    by simp
  with n have "j_actual_hours (demo_job ''In progress'' None None) = None \<and>
     j_actual_cost (demo_job ''In progress'' None None) = None"
    by (rule mp [rotated])
  with js i show ?thesis by simp
qed

text \<open>
  \<^verbatim>\<open>complete_job\<close> writes the status it is given, and \<^verbatim>\<open>update_job_status\<close> may
  change the status afterwards. From the empty store: a client, a job, and its
  completion with status In progress leave a job that is not Completed with actual hours
  and cost; so do a completion with status Completed and a status update to Scheduled.
\<close>

theorem actuals_without_completed_status:
  "jobs (run Inr sum_list empty_db
      [Create_client ''Ann'' [] [] [],
       Create_job 1 ''Mow'' ''2024-05-01T09:00:00'' [] None None 2 100,
       Complete_job 1 2 150 ''In progress'']) = [demo_job ''In progress'' (Some 150) None] \<and>
   jobs (run Inr sum_list empty_db
      [Create_client ''Ann'' [] [] [],
       Create_job 1 ''Mow'' ''2024-05-01T09:00:00'' [] None None 2 100,
       Complete_job 1 2 150 ''Completed'',
       Update_job_status 1 ''Scheduled'']) = [demo_job ''Scheduled'' (Some 150) None] \<and>
   j_status (demo_job ''In progress'' (Some 150) None) \<noteq> ''Completed'' \<and>
   j_actual_hours (demo_job ''In progress'' (Some 150) None) = Some 2 \<and>
   j_actual_cost (demo_job ''In progress'' (Some 150) None) = Some 150 \<and>
   j_status (demo_job ''Scheduled'' (Some 150) None) \<noteq> ''Completed'' \<and>
   j_actual_hours (demo_job ''Scheduled'' (Some 150) None) = Some 2 \<and>
   j_actual_cost (demo_job ''Scheduled'' (Some 150) None) = Some 150"
  by (simp add: empty_db_def create_client_def create_job_def complete_job_def
      update_job_status_def allowed_statuses_def autoincrement_def strip_def isspace_def
      crew_id_value_def demo_job_def Let_def)

subsection \<open>Requests for a job that does not exist\<close>

text \<open>
  Claim C9 on the code. The empty store has no job 1, and \<^verbatim>\<open>fetch_job\<close> raises the
  HTTP 404 error "Job not found"; \<^verbatim>\<open>notify_customer\<close>, which looks the job up, raises
  it too. \<^verbatim>\<open>update_job_status\<close> and \<^verbatim>\<open>complete_job\<close> do not look the job up:
  they return their redirect and leave the store as it is. \<^verbatim>\<open>add_task\<close> does not
  look the job up either and inserts a task for the missing job.
\<close>

theorem missing_job_not_reported:
  "fetch_job empty_db 1 = Inl (HTTPException 404 ''Job not found'') \<and>
   notify_customer empty_db ''2024-05-01T09:00:00'' 1 =
     (Inl (HTTPException 404 ''Job not found''), empty_db) \<and>
   update_job_status empty_db 1 ''Completed'' = (Inr (To_job (Some 1)), empty_db) \<and>
   complete_job empty_db 1 2 150 ''Completed'' = (Inr (To_job (Some 1)), empty_db) \<and>
   add_task empty_db 1 ''Rake'' =
     (Inr (To_job (Some 1)),
      empty_db\<lparr>tasks := [\<lparr>t_id = 1, t_job_id = 1, t_description = ''Rake'', t_completed = 0\<rparr>],
               tasks_seq := 1\<rparr>)"
  by (simp add: fetch_job_def notify_customer_def update_job_status_def complete_job_def
      add_task_def allowed_statuses_def empty_db_def autoincrement_def strip_def isspace_def
      Let_def)

end
